theory Spec2Isabelle
  imports Main
begin

section \<open>JavaScript values used by the schedule planner\<close>

text \<open>
  The planner is JavaScript (\<^verbatim>\<open>components/Calendar\<close>). Its numbers are modelled by
  \<open>jsnum\<close>: either \<open>NaN\<close> or an integer. Every number the normalisation pipeline
  computes with is an integer (results of \<^verbatim>\<open>parseInt\<close>, hour and minute fields,
  millisecond time values), so no fractional value is needed. The comparison operators
  follow ECMAScript: every comparison with \<open>NaN\<close> is false, and \<^verbatim>\<open>!==\<close> with
  \<open>NaN\<close> is true.

  Strings are \<open>string\<close>, a character being a code unit below 256. The model is
  exact for ASCII text with U+00A0 (the no-break space, which JavaScript counts as white
  space); every other character the regular expressions of the source can match is
  ASCII. The case mappings leave the other characters above ASCII unchanged; none of
  them is compared with anything but ASCII text.
\<close>

datatype jsnum = NaN | Num int

fun js_lt :: "jsnum \<Rightarrow> jsnum \<Rightarrow> bool" where
  "js_lt (Num a) (Num b) = (a < b)"
| "js_lt _ _ = False"

fun js_le :: "jsnum \<Rightarrow> jsnum \<Rightarrow> bool" where
  "js_le (Num a) (Num b) = (a \<le> b)"
| "js_le _ _ = False"

definition js_gt :: "jsnum \<Rightarrow> jsnum \<Rightarrow> bool" where
  "js_gt a b = js_lt b a"

definition js_ge :: "jsnum \<Rightarrow> jsnum \<Rightarrow> bool" where
  "js_ge a b = js_le b a"

fun js_eq :: "jsnum \<Rightarrow> jsnum \<Rightarrow> bool" where
  "js_eq (Num a) (Num b) = (a = b)"
| "js_eq _ _ = False"

fun js_add :: "jsnum \<Rightarrow> jsnum \<Rightarrow> jsnum" where
  "js_add (Num a) (Num b) = Num (a + b)"
| "js_add _ _ = NaN"

text \<open>
  A raw cell value. CSV cells are always strings (\<^verbatim>\<open>dynamicTyping: false\<close>); a
  spreadsheet cell may also be a number, a boolean, a native \<^verbatim>\<open>Date\<close> or missing.
  The code only ever tests a number for truthiness and converts it with
  \<^verbatim>\<open>toString()\<close>, so a number cell is represented by its \<^verbatim>\<open>toString()\<close>
  rendering (\<^verbatim>\<open>"45000"\<close>, \<^verbatim>\<open>"0.375"\<close>, \<^verbatim>\<open>"NaN"\<close>). A \<^verbatim>\<open>Date\<close> is its time
  value (milliseconds since the epoch, or \<open>NaN\<close> for an Invalid Date) together with the
  text its implementation-defined \<^verbatim>\<open>toString()\<close> returns.
\<close>

datatype jsval =
    JStr string
  | JNum string
  | JBool bool
  | JDate jsnum string
  | JUndef

datatype js_error = TypeError

fun truthy :: "jsval \<Rightarrow> bool" where
  "truthy (JStr s) = (s \<noteq> [])"
| "truthy (JNum r) = (r \<noteq> ''0'' \<and> r \<noteq> ''NaN'')"
| "truthy (JBool b) = b"
| "truthy (JDate _ _) = True"
| "truthy JUndef = False"

text \<open>\<^verbatim>\<open>!v\<close>\<close>

definition falsy :: "jsval \<Rightarrow> bool" where
  "falsy v = (\<not> truthy v)"

text \<open>\<^verbatim>\<open>v.toString()\<close>: a \<^verbatim>\<open>TypeError\<close> on \<^verbatim>\<open>undefined\<close>.\<close>

fun toString :: "jsval \<Rightarrow> js_error + string" where
  "toString (JStr s) = Inr s"
| "toString (JNum r) = Inr r"
| "toString (JBool b) = Inr (if b then ''true'' else ''false'')"
| "toString (JDate _ r) = Inr r"
| "toString JUndef = Inl TypeError"

text \<open>\<^verbatim>\<open>a || b\<close> on values.\<close>

definition js_or :: "jsval \<Rightarrow> jsval \<Rightarrow> jsval" where
  "js_or a b = (if truthy a then a else b)"

subsection \<open>Characters and strings\<close>

definition isDigit :: "char \<Rightarrow> bool" where
  "isDigit c = ((48::nat) \<le> of_char c \<and> of_char c \<le> (57::nat))"

definition isUpper :: "char \<Rightarrow> bool" where
  "isUpper c = ((65::nat) \<le> of_char c \<and> of_char c \<le> (90::nat))"

definition isLower :: "char \<Rightarrow> bool" where
  "isLower c = ((97::nat) \<le> of_char c \<and> of_char c \<le> (122::nat))"

text \<open>\<^verbatim>\<open>/[a-zA-Z]/\<close>\<close>

definition isLetter :: "char \<Rightarrow> bool" where
  "isLetter c = (isUpper c \<or> isLower c)"

text \<open>
  White space as \<^verbatim>\<open>\s\<close>, \<^verbatim>\<open>trim()\<close>, \<^verbatim>\<open>parseInt\<close> and the conversion of a string
  to a number see it: TAB, LF, VT, FF, CR, SPACE and the no-break space U+00A0.
\<close>

definition isSpace :: "char \<Rightarrow> bool" where
  "isSpace c = (((9::nat) \<le> of_char c \<and> of_char c \<le> (13::nat)) \<or> of_char c = (32::nat)
                \<or> of_char c = (160::nat))"

definition lowerChar :: "char \<Rightarrow> char" where
  "lowerChar c = (if isUpper c then char_of (of_char c + (32::nat)) else c)"

definition upperChar :: "char \<Rightarrow> char" where
  "upperChar c = (if isLower c then char_of (of_char c - (32::nat)) else c)"

definition toLowerCase :: "string \<Rightarrow> string" where
  "toLowerCase s = map lowerChar s"

definition toUpperCase :: "string \<Rightarrow> string" where
  "toUpperCase s = map upperChar s"

definition trim :: "string \<Rightarrow> string" where
  "trim s = rev (dropWhile isSpace (rev (dropWhile isSpace s)))"

definition digitVal :: "char \<Rightarrow> int" where
  "digitVal c = int (of_char c) - 48"

definition digitsVal :: "string \<Rightarrow> int" where
  "digitsVal ds = foldl (\<lambda>acc c. 10 * acc + digitVal c) 0 ds"

text \<open>
  \<^verbatim>\<open>parseInt(s, 10)\<close>: skip leading white space, read an optional sign, then the longest
  run of decimal digits; \<open>NaN\<close> when that run is empty.
\<close>

definition parseInt :: "string \<Rightarrow> jsnum" where
  "parseInt s =
     (let t = dropWhile isSpace s;
          neg = (t \<noteq> [] \<and> hd t = CHR ''-'');
          u = (if t \<noteq> [] \<and> (hd t = CHR ''-'' \<or> hd t = CHR ''+'') then tl t else t);
          ds = takeWhile isDigit u
      in if ds = [] then NaN
         else Num ((if neg then - 1 else 1) * digitsVal ds))"

section \<open>Time Parser\<close>

record timeOfDay =
  hours :: jsnum
  minutes :: jsnum

text \<open>
  A regular-expression match is the triple of its capture groups 1 to 3; \<open>None\<close> is a
  group that did not take part (\<^verbatim>\<open>undefined\<close>), and also an index beyond the groups
  of the expression.
\<close>

type_synonym groups = "string option \<times> string option \<times> string option"

text \<open>
  \<^verbatim>\<open>/^(\d{1,2}):?(\d{2})$/\<close>. The hour group is greedy: two digits are tried first,
  then one. After the hour an optional colon, then exactly two digits up to the end of
  the input.
\<close>

definition minutesToEnd :: "string \<Rightarrow> string option" where
  "minutesToEnd r =
     (let r' = (if r \<noteq> [] \<and> hd r = CHR '':'' then tl r else r)
      in if length r' = 2 \<and> list_all isDigit r' then Some r' else None)"

definition militaryHour :: "nat \<Rightarrow> string \<Rightarrow> (string \<times> string) option" where
  "militaryHour k s =
     (if k \<le> length s \<and> list_all isDigit (take k s)
      then (case minutesToEnd (drop k s) of
              Some m \<Rightarrow> Some (take k s, m)
            | None \<Rightarrow> None)
      else None)"

definition militaryMatch :: "string \<Rightarrow> (string \<times> string) option" where
  "militaryMatch s =
     (case militaryHour 2 s of
        Some r \<Rightarrow> Some r
      | None \<Rightarrow> militaryHour 1 s)"

text \<open>
  \<^verbatim>\<open>/(\d{1,2})(?::(\d{2}))?\s*([ap]m)/i\<close>, not anchored: the leftmost position where it
  matches wins. At one position the alternatives are tried in the order of the
  backtracking matcher: two-digit hour before one-digit hour, minutes group present
  before absent. \<^verbatim>\<open>\s*\<close> is followed by a letter, so giving back white space never
  helps and it takes all the white space there is.
\<close>

definition periodAt :: "string \<Rightarrow> string option" where
  "periodAt r =
     (let r' = dropWhile isSpace r
      in if 2 \<le> length r'
            \<and> (lowerChar (r' ! 0) = CHR ''a'' \<or> lowerChar (r' ! 0) = CHR ''p'')
            \<and> lowerChar (r' ! 1) = CHR ''m''
         then Some (take 2 r') else None)"

definition afterHour :: "string \<Rightarrow> string \<Rightarrow> groups option" where
  "afterHour h r =
     (let withMinutes =
            (if 3 \<le> length r \<and> r ! 0 = CHR '':'' \<and> isDigit (r ! 1) \<and> isDigit (r ! 2)
             then (case periodAt (drop 3 r) of
                     Some p \<Rightarrow> Some (Some h, Some (take 2 (drop 1 r)), Some p)
                   | None \<Rightarrow> None)
             else None)
      in case withMinutes of
           Some g \<Rightarrow> Some g
         | None \<Rightarrow> (case periodAt r of
                      Some p \<Rightarrow> Some (Some h, None, Some p)
                    | None \<Rightarrow> None))"

definition twelveHourAt :: "string \<Rightarrow> groups option" where
  "twelveHourAt s =
     (let two = (if 2 \<le> length s \<and> isDigit (s ! 0) \<and> isDigit (s ! 1)
                 then afterHour (take 2 s) (drop 2 s) else None)
      in case two of
           Some g \<Rightarrow> Some g
         | None \<Rightarrow> (if 1 \<le> length s \<and> isDigit (s ! 0)
                     then afterHour (take 1 s) (drop 1 s) else None))"

fun twelveHourSearch :: "string \<Rightarrow> groups option" where
  "twelveHourSearch [] = None"
| "twelveHourSearch (c # cs) =
     (case twelveHourAt (c # cs) of
        Some g \<Rightarrow> Some g
      | None \<Rightarrow> twelveHourSearch cs)"

text \<open>\<^verbatim>\<open>/(noon|midnight)/i\<close>, not anchored. It has one capture group.\<close>

definition noonAt :: "string \<Rightarrow> groups option" where
  "noonAt s =
     (if toLowerCase (take 4 s) = ''noon'' then Some (Some (take 4 s), None, None)
      else if toLowerCase (take 8 s) = ''midnight'' then Some (Some (take 8 s), None, None)
      else None)"

fun noonSearch :: "string \<Rightarrow> groups option" where
  "noonSearch [] = None"
| "noonSearch (c # cs) =
     (case noonAt (c # cs) of
        Some g \<Rightarrow> Some g
      | None \<Rightarrow> noonSearch cs)"

definition msPerDay :: int where
  "msPerDay = 86400000"

text \<open>
  Local time. The time zone of the environment is given by the two offsets that
  ECMAScript uses, in milliseconds, positive east of Greenwich: \<open>offsetAt z t\<close> is the
  offset in force at the UTC instant \<open>t\<close>, and \<open>offsetOfLocal z l\<close> is the offset by
  which the local time value \<open>l\<close> is read (at a daylight-saving change a local time
  exists twice or not at all, and the implementation chooses). \<open>toLocal\<close> is
  \<^verbatim>\<open>LocalTime\<close> and \<open>toUTC\<close> is \<^verbatim>\<open>UTC\<close> of the language definition. A zone whose
  offset never changes is \<open>fixedZone c\<close>.
\<close>

record zone =
  offsetAt :: "int \<Rightarrow> int"
  offsetOfLocal :: "int \<Rightarrow> int"

definition toLocal :: "zone \<Rightarrow> int \<Rightarrow> int" where
  "toLocal z t = t + offsetAt z t"

definition toUTC :: "zone \<Rightarrow> int \<Rightarrow> int" where
  "toUTC z l = l - offsetOfLocal z l"

definition fixedZone :: "int \<Rightarrow> zone" where
  "fixedZone c = \<lparr>offsetAt = (\<lambda>t. c), offsetOfLocal = (\<lambda>l. c)\<rparr>"


text \<open>The local calendar day of a time value, as a day number (day 0 is 1 January 1970).\<close>

definition localDay :: "zone \<Rightarrow> int \<Rightarrow> int" where
  "localDay z t = toLocal z t div msPerDay"

definition getHours :: "zone \<Rightarrow> jsnum \<Rightarrow> jsnum" where
  "getHours z d =
     (case d of NaN \<Rightarrow> NaN | Num t \<Rightarrow> Num ((toLocal z t mod msPerDay) div 3600000))"

definition getMinutes :: "zone \<Rightarrow> jsnum \<Rightarrow> jsnum" where
  "getMinutes z d =
     (case d of NaN \<Rightarrow> NaN | Num t \<Rightarrow> Num ((toLocal z t mod 3600000) div 60000))"

text \<open>
  \<^verbatim>\<open>parseTime\<close> (lines 73 to 109). \<open>None\<close> is \<^verbatim>\<open>null\<close>. The body sits in a
  \<^verbatim>\<open>try\<close> whose handler returns \<^verbatim>\<open>null\<close>.
\<close>

definition twelveHourResult :: "groups \<Rightarrow> timeOfDay option" where
  "twelveHourResult g =
     (case g of (g1, g2, g3) \<Rightarrow>
        (let hours0 = (case g1 of Some x \<Rightarrow> if x \<noteq> [] then parseInt x else Num 0
                                | None \<Rightarrow> Num 0);
             minutes = (case g2 of Some x \<Rightarrow> if x \<noteq> [] then parseInt x else Num 0
                                 | None \<Rightarrow> Num 0);
             period = map_option toLowerCase g3;
             hours1 = (if period = Some ''noon'' then Num 12 else hours0);
             hours2 = (if period = Some ''midnight'' then Num 0 else hours1);
             hours3 = (if period = Some ''pm'' \<and> \<not> js_eq hours2 (Num 12)
                       then js_add hours2 (Num 12) else hours2);
             hours4 = (if period = Some ''am'' \<and> js_eq hours3 (Num 12) then Num 0 else hours3)
         in if js_lt hours4 (Num 0) \<or> js_gt hours4 (Num 23)
               \<or> js_lt minutes (Num 0) \<or> js_gt minutes (Num 59)
            then None
            else Some \<lparr>hours = hours4, minutes = minutes\<rparr>))"

definition parseTime :: "zone \<Rightarrow> jsval \<Rightarrow> timeOfDay option" where
  "parseTime z timeValue =
     (if falsy timeValue then None
      else case timeValue of
        JDate d _ \<Rightarrow> Some \<lparr>hours = getHours z d, minutes = getMinutes z d\<rparr>
      | _ \<Rightarrow>
        (case toString timeValue of
           Inl _ \<Rightarrow> None
         | Inr str \<Rightarrow>
           (let cleaned = toLowerCase (trim str)
            in case militaryMatch cleaned of
                 Some (h, m) \<Rightarrow>
                   (let hours = parseInt h;
                        minutes = parseInt (if m \<noteq> [] then m else ''00'')
                    in if js_gt hours (Num 23) \<or> js_gt minutes (Num 59) then None
                       else Some \<lparr>hours = hours, minutes = minutes\<rparr>)
               | None \<Rightarrow>
                   (case (case twelveHourSearch cleaned of
                            Some g \<Rightarrow> Some g
                          | None \<Rightarrow> noonSearch cleaned) of
                      Some g \<Rightarrow> twelveHourResult g
                    | None \<Rightarrow> None))))"

text \<open>A \<open>TimeOfDay\<close> of the data model: hours 0 to 23, minutes 0 to 59.\<close>

definition validTimeOfDay :: "timeOfDay \<Rightarrow> bool" where
  "validTimeOfDay t =
     (js_le (Num 0) (hours t) \<and> js_le (hours t) (Num 23)
      \<and> js_le (Num 0) (minutes t) \<and> js_le (minutes t) (Num 59))"

section \<open>Date-Time Combiner\<close>

subsection \<open>Native dates\<close>

text \<open>
  \<^verbatim>\<open>TimeClip\<close>: a time value beyond 8.64e15 milliseconds from the epoch is an
  Invalid Date.
\<close>

definition timeClip :: "int \<Rightarrow> jsnum" where
  "timeClip t = (if - 8640000000000000 \<le> t \<and> t \<le> 8640000000000000 then Num t else NaN)"

text \<open>\<^verbatim>\<open>new Date(ms)\<close> for a number \<open>ms\<close>.\<close>

definition newDate :: "jsnum \<Rightarrow> jsnum" where
  "newDate ms = (case ms of NaN \<Rightarrow> NaN | Num t \<Rightarrow> timeClip t)"

text \<open>
  \<^verbatim>\<open>date.setDate(date.getDate() - 1)\<close>: the local calendar day before, at the same
  local time of day.
\<close>

definition setDatePrevious :: "zone \<Rightarrow> jsnum \<Rightarrow> jsnum" where
  "setDatePrevious z d =
     (case d of
        NaN \<Rightarrow> NaN
      | Num t \<Rightarrow>
          (let l = toLocal z t
           in timeClip (toUTC z ((l div msPerDay - 1) * msPerDay + l mod msPerDay))))"

text \<open>
  \<^verbatim>\<open>date.setHours(h, m)\<close>: local hour and minute replaced, local day, seconds and
  milliseconds kept; \<open>NaN\<close> in any of the three gives an Invalid Date.
\<close>

definition setHours :: "zone \<Rightarrow> jsnum \<Rightarrow> jsnum \<Rightarrow> jsnum \<Rightarrow> jsnum" where
  "setHours z d h m =
     (case d of
        NaN \<Rightarrow> NaN
      | Num t \<Rightarrow>
         (case h of
            NaN \<Rightarrow> NaN
          | Num hh \<Rightarrow>
             (case m of
                NaN \<Rightarrow> NaN
              | Num mm \<Rightarrow>
                 (let l = toLocal z t
                  in timeClip (toUTC z ((l div msPerDay) * msPerDay + hh * 3600000
                                          + mm * 60000 + l mod 60000))))))"

text \<open>\<^verbatim>\<open>date.setHours(h)\<close> and \<^verbatim>\<open>date.setMinutes(m)\<close> with one argument.\<close>

definition setHoursOnly :: "zone \<Rightarrow> jsnum \<Rightarrow> jsnum \<Rightarrow> jsnum" where
  "setHoursOnly z d h =
     (case d of
        NaN \<Rightarrow> NaN
      | Num t \<Rightarrow>
         (case h of
            NaN \<Rightarrow> NaN
          | Num hh \<Rightarrow>
             (let l = toLocal z t
              in timeClip (toUTC z ((l div msPerDay) * msPerDay + hh * 3600000
                                      + l mod 3600000)))))"

definition setMinutesOnly :: "zone \<Rightarrow> jsnum \<Rightarrow> jsnum \<Rightarrow> jsnum" where
  "setMinutesOnly z d m =
     (case d of
        NaN \<Rightarrow> NaN
      | Num t \<Rightarrow>
         (case m of
            NaN \<Rightarrow> NaN
          | Num mm \<Rightarrow>
             (let l = toLocal z t
              in timeClip (toUTC z ((l div 3600000) * 3600000 + mm * 60000 + l mod 60000)))))"

subsection \<open>The proleptic Gregorian calendar\<close>

definition isLeapYear :: "int \<Rightarrow> bool" where
  "isLeapYear y = ((y mod 4 = 0 \<and> y mod 100 \<noteq> 0) \<or> y mod 400 = 0)"

definition daysInMonth :: "int \<Rightarrow> int \<Rightarrow> int" where
  "daysInMonth y m =
     (if m = 2 then (if isLeapYear y then 29 else 28)
      else if m = 4 \<or> m = 6 \<or> m = 9 \<or> m = 11 then 30
      else 31)"

text \<open>Day number of a calendar date, day 0 being 1 January 1970.\<close>

definition daysFromCivil :: "int \<Rightarrow> int \<Rightarrow> int \<Rightarrow> int" where
  "daysFromCivil y m d =
     (let y' = (if m \<le> 2 then y - 1 else y);
          era = y' div 400;
          yoe = y' - era * 400;
          mp = (m + 9) mod 12;
          doy = (153 * mp + 2) div 5 + d - 1;
          doe = yoe * 365 + yoe div 4 - yoe div 100 + doy
      in era * 146097 + doe - 719468)"

text \<open>The calendar date (year, month, day) of a day number.\<close>

definition civilFromDays :: "int \<Rightarrow> int \<times> int \<times> int" where
  "civilFromDays z =
     (let z' = z + 719468;
          era = z' div 146097;
          doe = z' - era * 146097;
          yoe = (doe - doe div 1460 + doe div 36524 - doe div 146096) div 365;
          doy = doe - (365 * yoe + yoe div 4 - yoe div 100);
          mp = (5 * doy + 2) div 153;
          d = doy - (153 * mp + 2) div 5 + 1;
          m = (if mp < 10 then mp + 3 else mp - 9);
          y = yoe + era * 400 + (if m \<le> 2 then 1 else 0)
      in (y, m, d))"

subsection \<open>The date library (moment)\<close>

text \<open>
  The planner parses and formats dates with the moment library, which is not part of
  the repository. What follows is the library's behaviour for the calls the planner
  makes.

  Strict parsing, \<^verbatim>\<open>moment(s, formats, true)\<close>: a format is a sequence of tokens; each
  token must consume its own shape at the current position of the input (\<^verbatim>\<open>YYYY\<close> four
  digits, \<^verbatim>\<open>MM\<close> and \<^verbatim>\<open>DD\<close> two digits, \<^verbatim>\<open>MMM\<close> an English short month name in
  any letter case, any other character itself), nothing may be left over, and the
  fields must form a calendar date. Of several formats the first valid one wins.
\<close>

datatype token = YYYY | MM | DD | MMM | Lit char

definition monthsShort :: "string list" where
  "monthsShort = [''jan'', ''feb'', ''mar'', ''apr'', ''may'', ''jun'',
                  ''jul'', ''aug'', ''sep'', ''oct'', ''nov'', ''dec'']"

fun indexOf :: "'a \<Rightarrow> 'a list \<Rightarrow> nat option" where
  "indexOf x [] = None"
| "indexOf x (y # ys) =
     (if x = y then Some 0
      else (case indexOf x ys of None \<Rightarrow> None | Some i \<Rightarrow> Some (Suc i)))"

fun strictParse :: "token list \<Rightarrow> string \<Rightarrow> int \<times> int \<times> int \<Rightarrow> (int \<times> int \<times> int) option" where
  "strictParse [] s p = (if s = [] then Some p else None)"
| "strictParse (YYYY # ts) s (y, m, d) =
     (if 4 \<le> length s \<and> list_all isDigit (take 4 s)
      then strictParse ts (drop 4 s) (digitsVal (take 4 s), m, d) else None)"
| "strictParse (MM # ts) s (y, m, d) =
     (if 2 \<le> length s \<and> list_all isDigit (take 2 s)
      then strictParse ts (drop 2 s) (y, digitsVal (take 2 s), d) else None)"
| "strictParse (DD # ts) s (y, m, d) =
     (if 2 \<le> length s \<and> list_all isDigit (take 2 s)
      then strictParse ts (drop 2 s) (y, m, digitsVal (take 2 s)) else None)"
| "strictParse (MMM # ts) s (y, m, d) =
     (case indexOf (toLowerCase (take 3 s)) monthsShort of
        None \<Rightarrow> None
      | Some i \<Rightarrow> strictParse ts (drop 3 s) (y, int i + 1, d))"
| "strictParse (Lit c # ts) s p =
     (if s \<noteq> [] \<and> hd s = c then strictParse ts (tl s) p else None)"

definition validDate :: "int \<times> int \<times> int \<Rightarrow> bool" where
  "validDate p = (case p of (y, m, d) \<Rightarrow> 1 \<le> m \<and> m \<le> 12 \<and> 1 \<le> d \<and> d \<le> daysInMonth y m)"

definition momentStrict1 :: "token list \<Rightarrow> string \<Rightarrow> (int \<times> int \<times> int) option" where
  "momentStrict1 f s =
     (case strictParse f s (0, 0, 0) of
        None \<Rightarrow> None
      | Some p \<Rightarrow> if validDate p then Some p else None)"

fun momentStrict :: "token list list \<Rightarrow> string \<Rightarrow> (int \<times> int \<times> int) option" where
  "momentStrict [] s = None"
| "momentStrict (f # fs) s =
     (case momentStrict1 f s of
        Some p \<Rightarrow> Some p
      | None \<Rightarrow> momentStrict fs s)"

text \<open>The format \<^verbatim>\<open>"YYYYMMDD"\<close>.\<close>

definition fmtYYYYMMDD :: "token list" where
  "fmtYYYYMMDD = [YYYY, MM, DD]"

text \<open>The array \<^verbatim>\<open>dateFormats\<close> of \<^verbatim>\<open>parseDateTime\<close> (lines 136 to 144), in its order.\<close>

definition dateFormats :: "token list list" where
  "dateFormats =
     [ [YYYY, MM, DD],
       [YYYY, Lit (CHR ''-''), MM, Lit (CHR ''-''), DD],
       [MM, Lit (CHR ''/''), DD, Lit (CHR ''/''), YYYY],
       [DD, Lit (CHR ''-''), MM, Lit (CHR ''-''), YYYY],
       [MMM, Lit (CHR '' ''), DD, Lit (CHR '',''), Lit (CHR '' ''), YYYY],
       [DD, Lit (CHR '' ''), MMM, Lit (CHR '' ''), YYYY],
       [YYYY, Lit (CHR ''/''), MM, Lit (CHR ''/''), DD] ]"

text \<open>The moment of a parsed date is local midnight of that day.\<close>

definition momentOfDate :: "zone \<Rightarrow> int \<times> int \<times> int \<Rightarrow> jsnum" where
  "momentOfDate z p =
     (case p of (y, m, d) \<Rightarrow> timeClip (toUTC z (daysFromCivil y m d * msPerDay)))"

text \<open>
  \<^verbatim>\<open>date.set({ hour: h, minute: m }).toDate()\<close>: the library sets the hour, then the
  minute, each through the native setter, and silently skips a unit whose value is
  \<open>NaN\<close>.
\<close>

definition momentSet :: "zone \<Rightarrow> jsnum \<Rightarrow> jsnum \<Rightarrow> jsnum \<Rightarrow> jsnum" where
  "momentSet z d h m =
     (let d1 = (if d = NaN \<or> h = NaN then d else setHoursOnly z d h);
          d2 = (if d1 = NaN \<or> m = NaN then d1 else setMinutesOnly z d1 m)
      in d2)"

text \<open>
  \<^verbatim>\<open>moment(d).add(1, "days").toDate()\<close>: the library sets the local date to the next
  day through the native setter, which keeps the local time of day; the elapsed time
  added is 24 hours unless the offset of the zone changes in between.
\<close>

definition momentAddDay :: "zone \<Rightarrow> jsnum \<Rightarrow> jsnum" where
  "momentAddDay z d =
     (case d of
        NaN \<Rightarrow> NaN
      | Num t \<Rightarrow>
          (let l = toLocal z t
           in timeClip (toUTC z ((l div msPerDay + 1) * msPerDay + l mod msPerDay))))"

text \<open>
  \<^verbatim>\<open>moment(d).format("YYYYMMDD")\<close>: the year zero-filled to four digits (with a minus
  sign before a negative year), month and day to two; \<^verbatim>\<open>"Invalid date"\<close> for an
  Invalid Date.
\<close>

definition digitChar :: "nat \<Rightarrow> char" where
  "digitChar n = char_of (48 + n mod 10)"

function showNat :: "nat \<Rightarrow> string" where
  "showNat n = (if n < 10 then [digitChar n] else showNat (n div 10) @ [digitChar n])"
  by pat_completeness auto
termination
  by (relation "measure id") auto

definition zeroFill :: "int \<Rightarrow> nat \<Rightarrow> string" where
  "zeroFill n w =
     (let a = showNat (nat \<bar>n\<bar>)
      in (if 0 \<le> n then [] else ''-'') @ replicate (w - length a) (CHR ''0'') @ a)"

definition momentFormatYYYYMMDD :: "zone \<Rightarrow> jsnum \<Rightarrow> string" where
  "momentFormatYYYYMMDD z d =
     (case d of
        NaN \<Rightarrow> ''Invalid date''
      | Num t \<Rightarrow>
          (case civilFromDays (toLocal z t div msPerDay) of
             (y, m, dd) \<Rightarrow> zeroFill y 4 @ zeroFill m 2 @ zeroFill dd 2))"

text \<open>\<^verbatim>\<open>moment(d).date()\<close>: the local day of the month.\<close>

definition momentDate :: "zone \<Rightarrow> jsnum \<Rightarrow> jsnum" where
  "momentDate z d =
     (case d of
        NaN \<Rightarrow> NaN
      | Num t \<Rightarrow> (case civilFromDays (toLocal z t div msPerDay) of (y, m, dd) \<Rightarrow> Num dd))"

subsection \<open>fixInvalidDate and parseDateTime\<close>

text \<open>\<^verbatim>\<open>fixInvalidDate\<close> (lines 57 to 68).\<close>

definition startsWith :: "string \<Rightarrow> string \<Rightarrow> bool" where
  "startsWith s p = (take (length p) s = p)"

definition fixInvalidDate :: "zone \<Rightarrow> jsval \<Rightarrow> js_error + string" where
  "fixInvalidDate z dateInput =
     (case dateInput of
        JDate d _ \<Rightarrow> Inr (momentFormatYYYYMMDD z d)
      | _ \<Rightarrow>
        (case toString dateInput of
           Inl e \<Rightarrow> Inl e
         | Inr s \<Rightarrow>
             if startsWith s ''+057342'' then Inr (''2023'' @ drop 7 s) else Inr s))"

text \<open>
  \<^verbatim>\<open>!isNaN(s)\<close> for a string \<open>s\<close>: the string converts to a number, that is, after
  trimming it is empty, or a binary, octal or hexadecimal literal, or an optionally
  signed decimal literal (digits with an optional fraction and exponent, or
  \<^verbatim>\<open>Infinity\<close>).
\<close>

definition exponentPart :: "string \<Rightarrow> bool" where
  "exponentPart r =
     (r = [] \<or>
      ((hd r = CHR ''e'' \<or> hd r = CHR ''E'') \<and>
       (let r1 = tl r;
            r2 = (if r1 \<noteq> [] \<and> (hd r1 = CHR ''+'' \<or> hd r1 = CHR ''-'') then tl r1 else r1)
        in r2 \<noteq> [] \<and> list_all isDigit r2)))"

definition unsignedDecimal :: "string \<Rightarrow> bool" where
  "unsignedDecimal u =
     (u = ''Infinity'' \<or>
      (let ds = takeWhile isDigit u; r = dropWhile isDigit u
       in if ds \<noteq> []
          then (if r \<noteq> [] \<and> hd r = CHR ''.'' then exponentPart (dropWhile isDigit (tl r))
                else exponentPart r)
          else (r \<noteq> [] \<and> hd r = CHR ''.'' \<and> takeWhile isDigit (tl r) \<noteq> []
                \<and> exponentPart (dropWhile isDigit (tl r)))))"

definition isHexDigit :: "char \<Rightarrow> bool" where
  "isHexDigit c = (isDigit c \<or> ((97::nat) \<le> of_char (lowerChar c) \<and> of_char (lowerChar c) \<le> (102::nat)))"

definition nonDecimalLiteral :: "string \<Rightarrow> bool" where
  "nonDecimalLiteral t =
     (3 \<le> length t \<and> t ! 0 = CHR ''0'' \<and>
      ((lowerChar (t ! 1) = CHR ''x'' \<and> list_all isHexDigit (drop 2 t)) \<or>
       (lowerChar (t ! 1) = CHR ''o'' \<and>
          list_all (\<lambda>c. (48::nat) \<le> of_char c \<and> of_char c \<le> (55::nat)) (drop 2 t)) \<or>
       (lowerChar (t ! 1) = CHR ''b'' \<and>
          list_all (\<lambda>c. c = CHR ''0'' \<or> c = CHR ''1'') (drop 2 t))))"

definition isNumericString :: "string \<Rightarrow> bool" where
  "isNumericString s =
     (let t = trim s
      in t = [] \<or> nonDecimalLiteral t \<or>
         unsignedDecimal (if t \<noteq> [] \<and> (hd t = CHR ''+'' \<or> hd t = CHR ''-'') then tl t else t))"

text \<open>
  \<^verbatim>\<open>parseDateTime\<close> (lines 114 to 164). \<open>None\<close> is \<^verbatim>\<open>null\<close>; the body sits in a
  \<^verbatim>\<open>try\<close> whose handler returns \<^verbatim>\<open>null\<close>. The spreadsheet-serial branch returns
  the date it built without testing it; the other branch tests the combined date.
\<close>

definition parseDateTime :: "zone \<Rightarrow> jsval \<Rightarrow> jsval \<Rightarrow> jsnum option" where
  "parseDateTime z dateString timeValue =
     (if falsy dateString \<or> falsy timeValue then None
      else case fixInvalidDate z dateString of
        Inl _ \<Rightarrow> None
      | Inr fixedDateString \<Rightarrow>
          (if isNumericString fixedDateString \<and> js_lt (parseInt fixedDateString) (Num 100000)
           then
             (let excelDate = parseInt fixedDateString;
                  date0 = newDate (case excelDate of NaN \<Rightarrow> NaN
                                   | Num n \<Rightarrow> Num ((n - 25569) * 86400 * 1000));
                  date1 = (if js_gt excelDate (Num 59) then setDatePrevious z date0 else date0)
              in case parseTime z timeValue of
                   None \<Rightarrow> None
                 | Some time \<Rightarrow> Some (setHours z date1 (hours time) (minutes time)))
           else
             (case momentStrict dateFormats fixedDateString of
                None \<Rightarrow> None
              | Some p \<Rightarrow>
                  if momentOfDate z p = NaN then None
                  else
                    (case parseTime z timeValue of
                       None \<Rightarrow> None
                     | Some time \<Rightarrow>
                         (let combined = momentSet z (momentOfDate z p)
                                            (hours time) (minutes time)
                          in if combined = NaN then None else Some combined)))))"

section \<open>Group Classifier\<close>

text \<open>\<^verbatim>\<open>/^[A-H][1-2]$/i\<close> as a test of the whole string.\<close>

definition isGroupLetter :: "char \<Rightarrow> bool" where
  "isGroupLetter c = ((97::nat) \<le> of_char (lowerChar c) \<and> of_char (lowerChar c) \<le> (104::nat))"

definition isGroupDigit :: "char \<Rightarrow> bool" where
  "isGroupDigit c = (c = CHR ''1'' \<or> c = CHR ''2'')"

definition expectedPattern :: "string \<Rightarrow> bool" where
  "expectedPattern g = (length g = 2 \<and> isGroupLetter (g ! 0) \<and> isGroupDigit (g ! 1))"

text \<open>A group code of the data model: a letter A to H followed by 1 or 2.\<close>

definition isGroupCode :: "string \<Rightarrow> bool" where
  "isGroupCode g =
     (length g = 2 \<and> (65::nat) \<le> of_char (g ! 0) \<and> of_char (g ! 0) \<le> (72::nat)
      \<and> isGroupDigit (g ! 1))"

text \<open>
  \<^verbatim>\<open>/([A-H])\s*([1-2])/i\<close>, not anchored; the result is group 1 followed by group 2.
  \<^verbatim>\<open>\s*\<close> is followed by a digit, so it takes all the white space there is.
\<close>

definition groupAt :: "string \<Rightarrow> string option" where
  "groupAt s =
     (if s \<noteq> [] \<and> isGroupLetter (hd s)
      then (let r = dropWhile isSpace (tl s)
            in if r \<noteq> [] \<and> isGroupDigit (hd r) then Some [hd s, hd r] else None)
      else None)"

fun groupSearch :: "string \<Rightarrow> string option" where
  "groupSearch [] = None"
| "groupSearch (c # cs) =
     (case groupAt (c # cs) of
        Some g \<Rightarrow> Some g
      | None \<Rightarrow> groupSearch cs)"

text \<open>
  \<^verbatim>\<open>x.match(/([A-H])\s*([1-2])/i)\<close>: only a string has a \<^verbatim>\<open>match\<close> method; on a
  number, a boolean or a \<^verbatim>\<open>Date\<close> the call is a \<^verbatim>\<open>TypeError\<close>.
\<close>

fun matchGroup :: "jsval \<Rightarrow> js_error + string option" where
  "matchGroup (JStr s) = Inr (groupSearch s)"
| "matchGroup _ = Inl TypeError"

text \<open>\<^verbatim>\<open>deriveLearnerGroup\<close> (lines 30 to 52). \<open>Inl\<close> is an exception thrown to the caller.\<close>

definition fromField :: "jsval \<Rightarrow> string \<Rightarrow> js_error + string" where
  "fromField field grp =
     (if grp = [] \<and> truthy field
      then (case matchGroup field of
              Inl e \<Rightarrow> Inl e
            | Inr None \<Rightarrow> Inr grp
            | Inr (Some g) \<Rightarrow> Inr g)
      else Inr grp)"

definition deriveLearnerGroup :: "jsval \<Rightarrow> jsval \<Rightarrow> jsval \<Rightarrow> js_error + string" where
  "deriveLearnerGroup learnerGroupField sessionName sectionName =
     (case (if truthy learnerGroupField
            then (case toString learnerGroupField of
                    Inl e \<Rightarrow> Inl e
                  | Inr s \<Rightarrow> Inr (if expectedPattern (trim s) then trim s else []))
            else Inr []) of
        Inl e \<Rightarrow> Inl e
      | Inr group0 \<Rightarrow>
          (case fromField sectionName group0 of
             Inl e \<Rightarrow> Inl e
           | Inr group1 \<Rightarrow>
               (case fromField sessionName group1 of
                  Inl e \<Rightarrow> Inl e
                | Inr group2 \<Rightarrow>
                    Inr (if group2 \<noteq> [] then toUpperCase (trim group2) else ''Ungrouped''))))"

section \<open>Row Normalizer\<close>

text \<open>
  An event record. A property the object does not have reads as \<open>JUndef\<close>; the records
  of the normalizer have all six.
\<close>

record event =
  title :: jsval
  start :: jsnum
  end' :: jsnum
  desc :: jsval
  location :: jsval
  learnerGroup :: jsval

text \<open>
  The end-time adjustment, the same statement in \<^verbatim>\<open>processExcelFile\<close> (lines 317 to
  327) and \<^verbatim>\<open>processCSVFile\<close> (lines 406 to 416). \<open>None\<close> is the row being skipped.
\<close>

definition adjustEnd :: "zone \<Rightarrow> jsnum \<Rightarrow> jsnum \<Rightarrow> jsnum option" where
  "adjustEnd z s e =
     (if js_ge s e
      then (let adjustedEnd = momentAddDay z e
            in if js_lt s adjustedEnd then Some adjustedEnd else None)
      else Some e)"

text \<open>\<^verbatim>\<open>moment(s, "YYYYMMDD", true).isValid()\<close> and \<^verbatim>\<open>s.match(/[a-zA-Z]/)\<close>.\<close>

definition validYYYYMMDD :: "zone \<Rightarrow> string \<Rightarrow> bool" where
  "validYYYYMMDD z s =
     (case momentStrict [fmtYYYYMMDD] s of
        None \<Rightarrow> False
      | Some p \<Rightarrow> momentOfDate z p \<noteq> NaN)"

definition hasLetter :: "string \<Rightarrow> bool" where
  "hasLetter s = list_ex isLetter s"

text \<open>\<^verbatim>\<open>xs.filter(Boolean).join(" - ")\<close>\<close>

definition joinWith :: "string \<Rightarrow> string list \<Rightarrow> string" where
  "joinWith sep xs = (case xs of [] \<Rightarrow> [] | x # r \<Rightarrow> foldl (\<lambda>acc y. acc @ sep @ y) x r)"

definition joinText :: "jsval \<Rightarrow> string" where
  "joinText v = (case toString v of Inl _ \<Rightarrow> [] | Inr s \<Rightarrow> s)"

definition describe :: "jsval list \<Rightarrow> string" where
  "describe vs = joinWith '' - '' (map joinText (filter truthy vs))"

text \<open>
  The final \<^verbatim>\<open>filter\<close> of both paths keeps a record when \<^verbatim>\<open>start\<close> and \<^verbatim>\<open>end\<close>
  are \<^verbatim>\<open>Date\<close> objects. An Invalid Date is a \<^verbatim>\<open>Date\<close> object too.
\<close>

definition instanceofDate :: "jsnum \<Rightarrow> bool" where
  "instanceofDate d = (case d of NaN \<Rightarrow> True | Num _ \<Rightarrow> True)"

subsection \<open>CSV rows\<close>

text \<open>
  A row of the CSV reader is an object whose keys are the header cells, in header
  order, and whose values are strings. \<^verbatim>\<open>getField\<close> (lines 369 to 374) looks for the
  first key equal to the name up to letter case; when there is none it reads the
  property named \<^verbatim>\<open>undefined\<close>; an absent or empty value becomes the empty string.
\<close>

type_synonym csvRow = "(string \<times> string) list"

text \<open>
  The CSV reader with \<^verbatim>\<open>header: true\<close> pairs the cells of each data line with the
  cells of the header line.
\<close>

definition csvObjects :: "string list \<Rightarrow> string list list \<Rightarrow> csvRow list" where
  "csvObjects header dataLines = map (zip header) dataLines"

definition getField :: "csvRow \<Rightarrow> string \<Rightarrow> string" where
  "getField row name =
     (let key = (case find (\<lambda>k. toLowerCase k = toLowerCase name) (map fst row) of
                   Some k \<Rightarrow> k
                 | None \<Rightarrow> ''undefined'')
      in case map_of row key of
           Some v \<Rightarrow> if v \<noteq> [] then v else []
         | None \<Rightarrow> [])"

text \<open>The callback of \<^verbatim>\<open>flatMap\<close> in \<^verbatim>\<open>processCSVFile\<close> (lines 367 to 435).\<close>

definition processCSVRow :: "zone \<Rightarrow> csvRow \<Rightarrow> event list" where
  "processCSVRow z row =
     (let sectionDate = getField row ''Section Date'';
          startTime = getField row ''Start Time'';
          endTime = getField row ''End Time'';
          sessionName = getField row ''Session Name'';
          sectionName = (if getField row ''Section Name'' \<noteq> []
                         then getField row ''Section Name'' else getField row ''Section'')
      in case deriveLearnerGroup (JStr (getField row ''Learner Group''))
                (JStr sessionName) (JStr sectionName) of
           Inl _ \<Rightarrow> []
         | Inr grp \<Rightarrow>
             if sectionDate = [] then []
             else if hasLetter sectionDate \<and> \<not> validYYYYMMDD z sectionDate then []
             else
               (case parseDateTime z (JStr sectionDate) (JStr startTime) of
                  None \<Rightarrow> []
                | Some s \<Rightarrow>
                   (case parseDateTime z (JStr sectionDate) (JStr endTime) of
                      None \<Rightarrow> []
                    | Some e \<Rightarrow>
                       (case adjustEnd z s e of
                          None \<Rightarrow> []
                        | Some e1 \<Rightarrow>
                            [\<lparr>title = (if sessionName \<noteq> [] then JStr sessionName
                                       else JStr ''Untitled Session''),
                              start = s,
                              end' = e1,
                              desc = JStr (describe [JStr (getField row ''Course Name''),
                                                     JStr (getField row ''Session Type''),
                                                     JStr (getField row ''Section Name'')]),
                              location = (if getField row ''Location'' \<noteq> []
                                          then JStr (getField row ''Location'')
                                          else JStr ''Unknown Location''),
                              learnerGroup = JStr grp\<rparr>]))))"

definition processCSVFile :: "zone \<Rightarrow> csvRow list \<Rightarrow> event list" where
  "processCSVFile z rows =
     filter (\<lambda>ev. instanceofDate (start ev) \<and> instanceofDate (end' ev))
       (concat (map (processCSVRow z) rows))"

subsection \<open>Spreadsheet rows\<close>

text \<open>
  A spreadsheet row is an array of cells, \<^verbatim>\<open>headerRow\<close> the lower-cased header cells.
  \<^verbatim>\<open>getExcelField\<close> (lines 270 to 273): an index past the end of the row reads
  \<^verbatim>\<open>undefined\<close>.
\<close>

definition getExcelField :: "string list \<Rightarrow> jsval list \<Rightarrow> string \<Rightarrow> jsval" where
  "getExcelField headerRow row name =
     (case indexOf (toLowerCase name) headerRow of
        Some idx \<Rightarrow> (if idx < length row then row ! idx else JUndef)
      | None \<Rightarrow> JStr [])"

text \<open>
  The section date of a spreadsheet row (lines 282 to 285): a \<^verbatim>\<open>Date\<close> cell is
  formatted as \<^verbatim>\<open>YYYYMMDD\<close>, any other cell is converted with \<^verbatim>\<open>toString()\<close>
  and trimmed.
\<close>

definition excelSectionDate :: "zone \<Rightarrow> jsval \<Rightarrow> js_error + string" where
  "excelSectionDate z sectionDateRaw =
     (case sectionDateRaw of
        JDate d _ \<Rightarrow> Inr (momentFormatYYYYMMDD z d)
      | _ \<Rightarrow> (case toString sectionDateRaw of
                Inl e \<Rightarrow> Inl e
              | Inr s \<Rightarrow> Inr (trim s)))"

text \<open>
  The callback of \<^verbatim>\<open>flatMap\<close> in \<^verbatim>\<open>processExcelFile\<close> (lines 268 to 340). Its body
  sits in a \<^verbatim>\<open>try\<close> whose handler skips the row.
\<close>

definition processExcelRow :: "zone \<Rightarrow> string list \<Rightarrow> jsval list \<Rightarrow> event list" where
  "processExcelRow z headerRow row =
     (let courseName = getExcelField headerRow row ''Course Name'';
          sessionType = getExcelField headerRow row ''Session Type'';
          sessionName = getExcelField headerRow row ''Session Name'';
          sectionName = js_or (getExcelField headerRow row ''Section Name'')
                              (getExcelField headerRow row ''Section'');
          sectionDateRaw = getExcelField headerRow row ''Section Date''
      in case excelSectionDate z sectionDateRaw of
           Inl _ \<Rightarrow> []
         | Inr sectionDate \<Rightarrow>
            (let startTime = getExcelField headerRow row ''Start Time'';
                 endTime = getExcelField headerRow row ''End Time''
             in case deriveLearnerGroup (getExcelField headerRow row ''Learner Group'')
                       sessionName sectionName of
                  Inl _ \<Rightarrow> []
                | Inr grp \<Rightarrow>
                    if sectionDate = [] then []
                    else if hasLetter sectionDate \<and> \<not> validYYYYMMDD z sectionDate then []
                    else
                      (case parseDateTime z (JStr sectionDate) startTime of
                         None \<Rightarrow> []
                       | Some s \<Rightarrow>
                          (case parseDateTime z (JStr sectionDate) endTime of
                             None \<Rightarrow> []
                           | Some e \<Rightarrow>
                              (case adjustEnd z s e of
                                 None \<Rightarrow> []
                               | Some e1 \<Rightarrow>
                                   [\<lparr>title = js_or sessionName (JStr ''Untitled Session''),
                                     start = s,
                                     end' = e1,
                                     desc = JStr (describe [courseName, sessionType, sectionName]),
                                     location = js_or (getExcelField headerRow row ''Location'')
                                                      (JStr ''Unknown Location''),
                                     learnerGroup = JStr grp\<rparr>])))))"

definition processExcelFile :: "zone \<Rightarrow> string list \<Rightarrow> jsval list list \<Rightarrow> event list" where
  "processExcelFile z headerRow rows =
     filter (\<lambda>ev. instanceofDate (start ev) \<and> instanceofDate (end' ev))
       (concat (map (processExcelRow z headerRow) rows))"

section \<open>Event Store\<close>

text \<open>
  The planner compares event objects by reference (\<^verbatim>\<open>===\<close>, \<^verbatim>\<open>!==\<close>) and never
  mutates one, so an object is its identity together with its contents; two objects
  are the same object when their identities are equal.
\<close>

record obj =
  ident :: nat
  contents :: event

record slot =
  slotStart :: jsnum
  slotEnd :: jsnum

record appState =
  events :: "obj list"
  selectedSlot :: "slot option"
  selectedEvent :: "obj option"

definition sameObject :: "obj \<Rightarrow> obj option \<Rightarrow> bool" where
  "sameObject a b = (case b of None \<Rightarrow> False | Some b' \<Rightarrow> ident a = ident b')"

definition alertText :: string where
  "alertText = ''End time must be after start time!''"

text \<open>
  \<^verbatim>\<open>handleAddEvent\<close>, \<^verbatim>\<open>handleUpdateEvent\<close> and \<^verbatim>\<open>handleDeleteEvent\<close> (lines 495
  to 514). The first component of the result of \<open>handleAddEvent\<close> is the alert shown,
  if any.
\<close>

definition handleAddEvent :: "appState \<Rightarrow> obj \<Rightarrow> string option \<times> appState" where
  "handleAddEvent st newEvent =
     (if js_le (end' (contents newEvent)) (start (contents newEvent))
      then (Some alertText, st)
      else (None, st\<lparr>events := events st @ [newEvent], selectedSlot := None\<rparr>))"

definition handleUpdateEvent :: "appState \<Rightarrow> obj \<Rightarrow> appState" where
  "handleUpdateEvent st updatedEvent =
     st\<lparr>events := map (\<lambda>evt. if sameObject evt (selectedEvent st) then updatedEvent else evt)
                       (events st),
        selectedEvent := None\<rparr>"

definition handleDeleteEvent :: "appState \<Rightarrow> obj \<Rightarrow> appState" where
  "handleDeleteEvent st eventToDelete =
     st\<lparr>events := filter (\<lambda>evt. \<not> sameObject evt (Some eventToDelete)) (events st),
        selectedEvent := None\<rparr>"

text \<open>
  The submit handler of the add and edit form (lines 641 to 662). \<open>s\<close> and \<open>e\<close> are
  the dates read from the form, \<open>answer\<close> is what the user replies if asked to confirm
  an event over several days, \<open>fresh\<close> is the identity of the object the handler
  creates.
\<close>

definition onSubmit ::
    "zone \<Rightarrow> appState \<Rightarrow> string \<Rightarrow> jsnum \<Rightarrow> jsnum \<Rightarrow> bool \<Rightarrow> nat \<Rightarrow> string option \<times> appState" where
  "onSubmit z st formTitle s e answer fresh =
     (if \<not> js_eq (momentDate z s) (momentDate z e) \<and> \<not> answer then (None, st)
      else
        (let newEvent = \<lparr>ident = fresh,
                         contents = \<lparr>title = JStr formTitle, start = s, end' = e,
                                   desc = JUndef, location = JUndef, learnerGroup = JUndef\<rparr>\<rparr>
         in if js_le e s then (Some alertText, st)
            else if selectedSlot st \<noteq> None then handleAddEvent st newEvent
            else (None, handleUpdateEvent st newEvent)))"

text \<open>An event object as the form creates it, for the examples below.\<close>

definition sampleEvent :: "jsnum \<Rightarrow> jsnum \<Rightarrow> event" where
  "sampleEvent s e =
     \<lparr>title = JStr ''Seminar'', start = s, end' = e,
      desc = JUndef, location = JUndef, learnerGroup = JUndef\<rparr>"

section \<open>Auxiliary facts about digits and zones\<close>

lemma letter_not_digit: "isLetter c \<Longrightarrow> \<not> isDigit c"
  by (auto simp: isLetter_def isDigit_def isUpper_def isLower_def)

lemma digit_not_space: "isDigit c \<Longrightarrow> \<not> isSpace c"
  by (auto simp: isDigit_def isSpace_def)

lemma digitsVal_snoc: "digitsVal (ds @ [c]) = 10 * digitsVal ds + digitVal c"
  by (simp add: digitsVal_def)

lemma digitsVal_nonneg: "list_all isDigit ds \<Longrightarrow> 0 \<le> digitsVal ds"
proof (induction ds rule: rev_induct)
  case Nil
  then show ?case by (simp add: digitsVal_def)
next
  case (snoc c ds)
  then have "0 \<le> digitsVal ds" and "isDigit c" by simp_all
  moreover have "isDigit c \<Longrightarrow> 0 \<le> digitVal c"
    by (simp add: isDigit_def digitVal_def)
  ultimately show ?case by (simp add: digitsVal_snoc)
qed

lemma parseInt_digits:
  assumes "list_all isDigit ds" and "ds \<noteq> []"
  shows "parseInt ds = Num (digitsVal ds)"
proof -
  obtain c cs where ds: "ds = c # cs" using assms(2) by (cases ds) auto
  have c: "isDigit c" using assms(1) ds by simp
  have ns: "\<not> isSpace c" using c by (rule digit_not_space)
  have sg: "c \<noteq> CHR ''-''" "c \<noteq> CHR ''+''" using c by (auto simp: isDigit_def)
  have tw: "takeWhile isDigit ds = ds" using assms(1) by (simp add: list_all_iff)
  show ?thesis
    using ns sg tw assms(2) unfolding ds parseInt_def by (simp add: Let_def)
qed

lemma toLocal_fixed: "toLocal (fixedZone c) t = t + c"
  by (simp add: toLocal_def fixedZone_def)

lemma toUTC_fixed: "toUTC (fixedZone c) l = l - c"
  by (simp add: toUTC_def fixedZone_def)

section \<open>Properties of the Time Parser\<close>

lemma parseTime_noon_eval: "parseTime z (JStr ''noon'') = Some \<lparr>hours = NaN, minutes = Num 0\<rparr>"
  by code_simp

lemma parseTime_midnight_eval:
  "parseTime z (JStr ''midnight'') = Some \<lparr>hours = NaN, minutes = Num 0\<rparr>"
  by code_simp

lemma parseTime_examples:
  "parseTime z (JStr ''1:30 pm'') = Some \<lparr>hours = Num 13, minutes = Num 30\<rparr>"
  "parseTime z (JStr ''25:00'') = None"
  "parseTime z (JStr ''12:05 am'') = Some \<lparr>hours = Num 0, minutes = Num 5\<rparr>"
  "parseTime z (JStr ''12 PM'') = Some \<lparr>hours = Num 12, minutes = Num 0\<rparr>"
  by code_simp+

text \<open>
  Whenever \<open>parseTime\<close> returns a result whose hours and minutes are numbers, they
  are in range, for every input value.
\<close>

lemma militaryHour_digits:
  assumes "militaryHour k s = Some (h, m)" and "0 < k"
  shows "list_all isDigit h \<and> h \<noteq> [] \<and> list_all isDigit m \<and> m \<noteq> []"
  using assms
  by (auto simp: militaryHour_def minutesToEnd_def Let_def split: if_splits option.splits)

lemma militaryMatch_digits:
  assumes "militaryMatch s = Some (h, m)"
  shows "list_all isDigit h \<and> h \<noteq> [] \<and> list_all isDigit m \<and> m \<noteq> []"
proof (cases "militaryHour 2 s")
  case None
  with assms have "militaryHour 1 s = Some (h, m)" by (simp add: militaryMatch_def)
  then show ?thesis using militaryHour_digits [of 1 s h m] by simp
next
  case (Some r)
  with assms have "militaryHour 2 s = Some (h, m)" by (simp add: militaryMatch_def)
  then show ?thesis using militaryHour_digits [of 2 s h m] by simp
qed

lemma twelveHourResult_range:
  assumes "twelveHourResult g = Some t" and "hours t \<noteq> NaN" and "minutes t \<noteq> NaN"
  shows "validTimeOfDay t"
proof -
  obtain g1 g2 g3 where g: "g = (g1, g2, g3)" by (cases g)
  obtain a b where ab: "hours t = Num a" "minutes t = Num b"
    using assms(2,3) by (cases "hours t"; cases "minutes t") auto
  from assms(1) ab show ?thesis
    unfolding g twelveHourResult_def validTimeOfDay_def Let_def js_gt_def
    by (auto split: if_splits)
qed

lemma getHours_range: "getHours z (Num t) = Num h \<Longrightarrow> 0 \<le> h \<and> h \<le> 23"
  by (auto simp: getHours_def msPerDay_def)

lemma getMinutes_range: "getMinutes z (Num t) = Num m \<Longrightarrow> 0 \<le> m \<and> m \<le> 59"
  by (auto simp: getMinutes_def)

lemma parseTime_text_in_range:
  assumes "parseTime z (JStr s) = Some t" and "hours t \<noteq> NaN" and "minutes t \<noteq> NaN"
  shows "validTimeOfDay t"
proof (cases "militaryMatch (toLowerCase (trim s))")
  case None
  with assms(1) obtain g where "twelveHourResult g = Some t"
    by (auto simp: parseTime_def falsy_def Let_def split: option.splits if_splits)
  then show ?thesis using assms(2,3) by (rule twelveHourResult_range)
next
  case (Some p)
  obtain h m where p: "p = (h, m)" by (cases p)
  have dg: "list_all isDigit h \<and> h \<noteq> [] \<and> list_all isDigit m \<and> m \<noteq> []"
    using militaryMatch_digits [of "toLowerCase (trim s)" h m] Some p by simp
  have ph: "parseInt h = Num (digitsVal h)" "parseInt m = Num (digitsVal m)"
    using dg by (simp_all add: parseInt_digits)
  have nn: "0 \<le> digitsVal h" "0 \<le> digitsVal m"
    using dg by (simp_all add: digitsVal_nonneg)
  from assms(1) Some p ph dg nn show ?thesis
    by (auto simp: parseTime_def falsy_def Let_def validTimeOfDay_def js_gt_def
             split: if_splits)
qed

lemma parseTime_number_as_text:
  "truthy (JNum r) \<Longrightarrow> parseTime z (JNum r) = parseTime z (JStr r)"
  by (cases "r = []")
     (simp_all add: parseTime_def falsy_def trim_def toLowerCase_def militaryMatch_def
        militaryHour_def)

lemma parseTime_true_as_text: "parseTime z (JBool True) = parseTime z (JStr ''true'')"
  by (simp add: parseTime_def falsy_def)

lemma parseTime_in_range:
  assumes "parseTime z v = Some t" and "hours t \<noteq> NaN" and "minutes t \<noteq> NaN"
  shows "validTimeOfDay t"
proof (cases v)
  case (JDate d r)
  with assms(1) have t: "t = \<lparr>hours = getHours z d, minutes = getMinutes z d\<rparr>"
    by (simp add: parseTime_def falsy_def)
  with assms(2) obtain x where d: "d = Num x" by (cases d) (auto simp: getHours_def)
  obtain h m where hm: "getHours z (Num x) = Num h" "getMinutes z (Num x) = Num m"
    by (simp add: getHours_def getMinutes_def)
  show ?thesis
    using getHours_range [OF hm(1)] getMinutes_range [OF hm(2)] hm
    by (simp add: t d validTimeOfDay_def)
next
  case JUndef
  with assms(1) show ?thesis by (simp add: parseTime_def falsy_def)
next
  case (JStr s)
  with assms show ?thesis using parseTime_text_in_range by simp
next
  case (JNum r)
  show ?thesis
  proof (cases "truthy (JNum r)")
    case True
    with assms JNum show ?thesis
      using parseTime_number_as_text [OF True] parseTime_text_in_range by simp
  next
    case False
    with assms(1) JNum show ?thesis by (simp add: parseTime_def falsy_def)
  qed
next
  case (JBool b)
  show ?thesis
  proof (cases b)
    case True
    with assms JBool show ?thesis
      using parseTime_true_as_text parseTime_text_in_range by simp
  next
    case False
    with assms(1) JBool show ?thesis by (simp add: parseTime_def falsy_def)
  qed
qed

text \<open>
  The 12-hour conversion. For an hour of one or two digits, optional minutes of two
  digits, and \<^verbatim>\<open>am\<close> or \<^verbatim>\<open>pm\<close> after a space, \<open>parseTime\<close> applies the
  standard rule: \<^verbatim>\<open>pm\<close> adds 12 to an hour other than 12, \<^verbatim>\<open>am\<close> turns 12 into 0;
  a result out of range is refused.
\<close>

lemma digit_plain:
  assumes "isDigit c"
  shows "lowerChar c = c" and "\<not> isSpace c" and "c \<noteq> CHR '':''" and "c \<noteq> CHR '' ''"
  using assms by (auto simp: isDigit_def lowerChar_def isUpper_def isSpace_def)

lemma one_or_two:
  assumes "length hs = 1 \<or> length hs = 2"
  obtains x where "hs = [x]" | x y where "hs = [x, y]"
proof -
  from assms consider "length hs = 1" | "length hs = 2" by blast
  then show ?thesis
  proof cases
    case 1
    then obtain x where "hs = [x]" by (cases hs) auto
    then show ?thesis by (rule that(1))
  next
    case 2
    then obtain x y where "hs = [x, y]" by (cases hs; cases "tl hs") auto
    then show ?thesis by (rule that(2))
  qed
qed

lemmas regex_defs = parseTime_def falsy_def trim_def toLowerCase_def militaryMatch_def
  militaryHour_def minutesToEnd_def twelveHourAt_def afterHour_def periodAt_def Let_def

lemma concrete_chars:
  "\<not> isDigit (CHR '':'')" "\<not> isDigit (CHR '' '')" "isSpace (CHR '' '')"
  "\<not> isSpace (CHR ''a'')" "\<not> isSpace (CHR ''p'')" "\<not> isSpace (CHR ''m'')"
  "lowerChar (CHR '':'') = CHR '':''" "lowerChar (CHR '' '') = CHR '' ''"
  "lowerChar (CHR ''a'') = CHR ''a''" "lowerChar (CHR ''p'') = CHR ''p''"
  "lowerChar (CHR ''m'') = CHR ''m''"
  by (simp_all add: isDigit_def isSpace_def lowerChar_def isUpper_def)

lemma match_one_digit_minutes:
  assumes x: "isDigit x" and a: "isDigit a" and b: "isDigit b"
  shows "parseTime z (JStr (x # CHR '':'' # a # b # CHR '' '' # ''am''))
           = twelveHourResult (Some [x], Some [a, b], Some ''am'')"
    and "parseTime z (JStr (x # CHR '':'' # a # b # CHR '' '' # ''pm''))
           = twelveHourResult (Some [x], Some [a, b], Some ''pm'')"
  using x a b digit_plain [OF x] digit_plain [OF a] digit_plain [OF b]
  by (simp_all add: regex_defs concrete_chars)

lemma match_two_digits_minutes:
  assumes x: "isDigit x" and y: "isDigit y" and a: "isDigit a" and b: "isDigit b"
  shows "parseTime z (JStr (x # y # CHR '':'' # a # b # CHR '' '' # ''am''))
           = twelveHourResult (Some [x, y], Some [a, b], Some ''am'')"
    and "parseTime z (JStr (x # y # CHR '':'' # a # b # CHR '' '' # ''pm''))
           = twelveHourResult (Some [x, y], Some [a, b], Some ''pm'')"
  using x y a b digit_plain [OF x] digit_plain [OF y] digit_plain [OF a] digit_plain [OF b]
  by (simp_all add: regex_defs concrete_chars)

lemma match_one_digit:
  assumes x: "isDigit x"
  shows "parseTime z (JStr (x # CHR '' '' # ''am''))
           = twelveHourResult (Some [x], None, Some ''am'')"
    and "parseTime z (JStr (x # CHR '' '' # ''pm''))
           = twelveHourResult (Some [x], None, Some ''pm'')"
  using x digit_plain [OF x]
  by (simp_all add: regex_defs concrete_chars)

lemma match_two_digits:
  assumes x: "isDigit x" and y: "isDigit y"
  shows "parseTime z (JStr (x # y # CHR '' '' # ''am''))
           = twelveHourResult (Some [x, y], None, Some ''am'')"
    and "parseTime z (JStr (x # y # CHR '' '' # ''pm''))
           = twelveHourResult (Some [x, y], None, Some ''pm'')"
  using x y digit_plain [OF x] digit_plain [OF y]
  by (simp_all add: regex_defs concrete_chars)

lemma twelve_hour_match:
  assumes hs: "list_all isDigit hs" "length hs = 1 \<or> length hs = 2"
    and ab: "isDigit a" "isDigit b"
    and p: "p = ''am'' \<or> p = ''pm''"
  shows "parseTime z (JStr (hs @ CHR '':'' # a # b # CHR '' '' # p))
           = twelveHourResult (Some hs, Some [a, b], Some p)"
    and "parseTime z (JStr (hs @ CHR '' '' # p)) = twelveHourResult (Some hs, None, Some p)"
proof -
  from hs(2)
  have "parseTime z (JStr (hs @ CHR '':'' # a # b # CHR '' '' # p))
           = twelveHourResult (Some hs, Some [a, b], Some p)
        \<and> parseTime z (JStr (hs @ CHR '' '' # p)) = twelveHourResult (Some hs, None, Some p)"
  proof (cases rule: one_or_two)
    case (1 x)
    then have x: "isDigit x" using hs(1) by simp
    from p show ?thesis
      unfolding 1
      using match_one_digit_minutes [OF x ab, of z] match_one_digit [OF x, of z]
      by (elim disjE) simp_all
  next
    case (2 x y)
    then have x: "isDigit x" and y: "isDigit y" using hs(1) by simp_all
    from p show ?thesis
      unfolding 2
      using match_two_digits_minutes [OF x y ab, of z] match_two_digits [OF x y, of z]
      by (elim disjE) simp_all
  qed
  then show "parseTime z (JStr (hs @ CHR '':'' # a # b # CHR '' '' # p))
           = twelveHourResult (Some hs, Some [a, b], Some p)"
    and "parseTime z (JStr (hs @ CHR '' '' # p)) = twelveHourResult (Some hs, None, Some p)"
    by simp_all
qed

lemma period_lower: "toLowerCase ''am'' = ''am''" "toLowerCase ''pm'' = ''pm''"
  by (simp_all add: toLowerCase_def concrete_chars)

lemma minutes_group:
  assumes "case mo of None \<Rightarrow> True | Some ms \<Rightarrow> list_all isDigit ms \<and> ms \<noteq> []"
  shows "(case mo of Some x \<Rightarrow> if x \<noteq> [] then parseInt x else Num 0 | None \<Rightarrow> Num 0)
           = Num (case mo of None \<Rightarrow> 0 | Some ms \<Rightarrow> digitsVal ms)"
    and "0 \<le> (case mo of None \<Rightarrow> 0 | Some ms \<Rightarrow> digitsVal ms)"
proof -
  have "(case mo of Some x \<Rightarrow> if x \<noteq> [] then parseInt x else Num 0 | None \<Rightarrow> Num 0)
           = Num (case mo of None \<Rightarrow> 0 | Some ms \<Rightarrow> digitsVal ms)
        \<and> 0 \<le> (case mo of None \<Rightarrow> 0 | Some ms \<Rightarrow> digitsVal ms)"
  proof (cases mo)
    case None
    then show ?thesis by simp
  next
    case (Some x)
    then have d: "list_all isDigit x" "x \<noteq> []" using assms by simp_all
    show ?thesis
      using Some d parseInt_digits [OF d] digitsVal_nonneg [OF d(1)] by simp
  qed
  then show "(case mo of Some x \<Rightarrow> if x \<noteq> [] then parseInt x else Num 0 | None \<Rightarrow> Num 0)
           = Num (case mo of None \<Rightarrow> 0 | Some ms \<Rightarrow> digitsVal ms)"
    and "0 \<le> (case mo of None \<Rightarrow> 0 | Some ms \<Rightarrow> digitsVal ms)"
    by simp_all
qed

lemma twelveHourResult_numbers:
  assumes "0 \<le> h" and "0 \<le> m"
  shows "(let hours0 = Num h; minutes = Num m; period = Some ''am'';
             hours1 = (if period = Some ''noon'' then Num 12 else hours0);
             hours2 = (if period = Some ''midnight'' then Num 0 else hours1);
             hours3 = (if period = Some ''pm'' \<and> \<not> js_eq hours2 (Num 12)
                       then js_add hours2 (Num 12) else hours2);
             hours4 = (if period = Some ''am'' \<and> js_eq hours3 (Num 12) then Num 0 else hours3)
         in if js_lt hours4 (Num 0) \<or> js_gt hours4 (Num 23)
               \<or> js_lt minutes (Num 0) \<or> js_gt minutes (Num 59)
            then None
            else Some \<lparr>hours = hours4, minutes = minutes\<rparr>)
         = (if 23 < (if h = 12 then 0 else h) \<or> 59 < m then None
            else Some \<lparr>hours = Num (if h = 12 then 0 else h), minutes = Num m\<rparr>)"
    and "(let hours0 = Num h; minutes = Num m; period = Some ''pm'';
             hours1 = (if period = Some ''noon'' then Num 12 else hours0);
             hours2 = (if period = Some ''midnight'' then Num 0 else hours1);
             hours3 = (if period = Some ''pm'' \<and> \<not> js_eq hours2 (Num 12)
                       then js_add hours2 (Num 12) else hours2);
             hours4 = (if period = Some ''am'' \<and> js_eq hours3 (Num 12) then Num 0 else hours3)
         in if js_lt hours4 (Num 0) \<or> js_gt hours4 (Num 23)
               \<or> js_lt minutes (Num 0) \<or> js_gt minutes (Num 59)
            then None
            else Some \<lparr>hours = hours4, minutes = minutes\<rparr>)
         = (if 23 < (if h \<noteq> 12 then h + 12 else h) \<or> 59 < m then None
            else Some \<lparr>hours = Num (if h \<noteq> 12 then h + 12 else h), minutes = Num m\<rparr>)"
  using assms by (simp_all add: Let_def js_gt_def)

lemma twelveHourResult_conversion:
  assumes hs: "list_all isDigit hs" "hs \<noteq> []"
    and ms: "case mo of None \<Rightarrow> True | Some ms \<Rightarrow> list_all isDigit ms \<and> ms \<noteq> []"
  defines "h \<equiv> digitsVal hs"
    and "m \<equiv> (case mo of None \<Rightarrow> 0 | Some ms \<Rightarrow> digitsVal ms)"
  shows "twelveHourResult (Some hs, mo, Some ''am'')
           = (if 23 < (if h = 12 then 0 else h) \<or> 59 < m then None
              else Some \<lparr>hours = Num (if h = 12 then 0 else h), minutes = Num m\<rparr>)"
    and "twelveHourResult (Some hs, mo, Some ''pm'')
           = (if 23 < (if h \<noteq> 12 then h + 12 else h) \<or> 59 < m then None
              else Some \<lparr>hours = Num (if h \<noteq> 12 then h + 12 else h), minutes = Num m\<rparr>)"
proof -
  have ph: "(if hs \<noteq> [] then parseInt hs else Num 0) = Num h"
    using hs by (simp add: parseInt_digits h_def)
  have h0: "0 \<le> h" unfolding h_def using hs(1) by (rule digitsVal_nonneg)
  have pm: "(case mo of Some x \<Rightarrow> if x \<noteq> [] then parseInt x else Num 0 | None \<Rightarrow> Num 0)
              = Num m"
    unfolding m_def using ms by (rule minutes_group(1))
  have m0: "0 \<le> m" unfolding m_def using ms by (rule minutes_group(2))
  have pl: "map_option toLowerCase (Some ''am'') = Some ''am''"
           "map_option toLowerCase (Some ''pm'') = Some ''pm''"
    by (simp_all add: period_lower)
  show "twelveHourResult (Some hs, mo, Some ''am'')
           = (if 23 < (if h = 12 then 0 else h) \<or> 59 < m then None
              else Some \<lparr>hours = Num (if h = 12 then 0 else h), minutes = Num m\<rparr>)"
    unfolding twelveHourResult_def prod.case option.case(2) ph pm pl
    by (rule twelveHourResult_numbers(1) [OF h0 m0])
  show "twelveHourResult (Some hs, mo, Some ''pm'')
           = (if 23 < (if h \<noteq> 12 then h + 12 else h) \<or> 59 < m then None
              else Some \<lparr>hours = Num (if h \<noteq> 12 then h + 12 else h), minutes = Num m\<rparr>)"
    unfolding twelveHourResult_def prod.case option.case(2) ph pm pl
    by (rule twelveHourResult_numbers(2) [OF h0 m0])
qed

lemma parseTime_twelve_hour:
  assumes hs: "list_all isDigit hs" "length hs = 1 \<or> length hs = 2"
    and ab: "isDigit a" "isDigit b"
  defines "h \<equiv> digitsVal hs" and "m \<equiv> digitsVal [a, b]"
  shows "parseTime z (JStr (hs @ CHR '':'' # a # b # '' am''))
           = (if 23 < (if h = 12 then 0 else h) \<or> 59 < m then None
              else Some \<lparr>hours = Num (if h = 12 then 0 else h), minutes = Num m\<rparr>)"
    and "parseTime z (JStr (hs @ CHR '':'' # a # b # '' pm''))
           = (if 23 < (if h \<noteq> 12 then h + 12 else h) \<or> 59 < m then None
              else Some \<lparr>hours = Num (if h \<noteq> 12 then h + 12 else h), minutes = Num m\<rparr>)"
    and "parseTime z (JStr (hs @ '' am''))
           = (if 23 < (if h = 12 then 0 else h) then None
              else Some \<lparr>hours = Num (if h = 12 then 0 else h), minutes = Num 0\<rparr>)"
    and "parseTime z (JStr (hs @ '' pm''))
           = (if 23 < (if h \<noteq> 12 then h + 12 else h) then None
              else Some \<lparr>hours = Num (if h \<noteq> 12 then h + 12 else h), minutes = Num 0\<rparr>)"
proof -
  have ne: "hs \<noteq> []" using hs(2) by auto
  have g: "case Some [a, b] of None \<Rightarrow> True | Some ms \<Rightarrow> list_all isDigit ms \<and> ms \<noteq> []"
    using ab by simp
  have n: "case (None :: string option) of None \<Rightarrow> True
           | Some ms \<Rightarrow> list_all isDigit ms \<and> ms \<noteq> []"
    by simp
  show "parseTime z (JStr (hs @ CHR '':'' # a # b # '' am''))
           = (if 23 < (if h = 12 then 0 else h) \<or> 59 < m then None
              else Some \<lparr>hours = Num (if h = 12 then 0 else h), minutes = Num m\<rparr>)"
    using twelve_hour_match(1) [OF hs ab, of "''am''" z]
          twelveHourResult_conversion(1) [OF hs(1) ne g]
    by (simp add: h_def m_def)
  show "parseTime z (JStr (hs @ CHR '':'' # a # b # '' pm''))
           = (if 23 < (if h \<noteq> 12 then h + 12 else h) \<or> 59 < m then None
              else Some \<lparr>hours = Num (if h \<noteq> 12 then h + 12 else h), minutes = Num m\<rparr>)"
    using twelve_hour_match(1) [OF hs ab, of "''pm''" z]
          twelveHourResult_conversion(2) [OF hs(1) ne g]
    by (simp add: h_def m_def)
  show "parseTime z (JStr (hs @ '' am''))
           = (if 23 < (if h = 12 then 0 else h) then None
              else Some \<lparr>hours = Num (if h = 12 then 0 else h), minutes = Num 0\<rparr>)"
    using twelve_hour_match(2) [OF hs ab, of "''am''" z]
          twelveHourResult_conversion(1) [OF hs(1) ne n]
    by (simp add: h_def)
  show "parseTime z (JStr (hs @ '' pm''))
           = (if 23 < (if h \<noteq> 12 then h + 12 else h) then None
              else Some \<lparr>hours = Num (if h \<noteq> 12 then h + 12 else h), minutes = Num 0\<rparr>)"
    using twelve_hour_match(2) [OF hs ab, of "''pm''" z]
          twelveHourResult_conversion(2) [OF hs(1) ne n]
    by (simp add: h_def)
qed

text \<open>
  Claim C1. The claim asks for \<^verbatim>\<open>parseTime("noon")\<close> to be 12:00 and for
  \<^verbatim>\<open>parseTime("midnight")\<close> to be 0:00. The code returns an hour that is \<open>NaN\<close> for
  both: the match of \<^verbatim>\<open>/(noon|midnight)/i\<close> has the word in group 1, where the code
  reads the hour with \<^verbatim>\<open>parseInt\<close>, and has no group 3, where the code looks for
  the word; the final range test lets \<open>NaN\<close> through because every comparison with
  \<open>NaN\<close> is false. (The other examples of the claim hold, see \<open>parseTime_examples\<close>, and so does
  the conversion of \<^verbatim>\<open>am\<close> and \<^verbatim>\<open>pm\<close> times, see \<open>parseTime_twelve_hour\<close>.)
\<close>

theorem parseTime_noon_midnight:
  "parseTime z (JStr ''noon'') = Some \<lparr>hours = NaN, minutes = Num 0\<rparr>
   \<and> parseTime z (JStr ''midnight'') = Some \<lparr>hours = NaN, minutes = Num 0\<rparr>"
  by (simp add: parseTime_noon_eval parseTime_midnight_eval)

text \<open>
  Claim C2. The claim asks that a result of \<open>parseTime\<close> has hours 0 to 23 and minutes
  0 to 59. For the input \<^verbatim>\<open>"noon"\<close> the code returns a result whose hour is \<open>NaN\<close>,
  which is not in that range.
\<close>

theorem parseTime_out_of_range:
  "\<exists>t. parseTime z (JStr ''noon'') = Some t \<and> \<not> validTimeOfDay t"
  by (simp add: parseTime_noon_eval validTimeOfDay_def)

section \<open>Properties of the Date-Time Combiner\<close>

text \<open>
  In a zone of constant offset at or east of Greenwich, less than a day ahead of UTC, a
  date string of decimal digits below 100000 and a time that parses to an hour and a
  minute in range give local day \<open>n - 25569\<close>, less one when \<open>n > 59\<close>, at that hour and minute.
\<close>

lemma day_split:
  fixes k r :: int
  assumes "0 \<le> r" and "r < 86400000"
  shows "(k * 86400000 + r) div 86400000 = k" and "(k * 86400000 + r) mod 86400000 = r"
  using assms by (simp_all add: div_pos_pos_trivial mod_pos_pos_trivial)

lemma minute_of_day: "((k::int) * 86400000 + x) mod 60000 = x mod 60000"
proof -
  have "k * 86400000 + x = (k * 1440) * 60000 + x" by simp
  then show ?thesis by (simp only: mod_mult_self3)
qed

lemma hour_of_day: "((k::int) * 86400000 + x) mod 3600000 = x mod 3600000"
proof -
  have "k * 86400000 + x = (k * 24) * 3600000 + x" by simp
  then show ?thesis by (simp only: mod_mult_self3)
qed

lemma hour_split:
  fixes h r :: int
  assumes "0 \<le> r" and "r < 3600000"
  shows "(h * 3600000 + r) div 3600000 = h" and "(h * 3600000 + r) mod 3600000 = r"
  using assms by (simp_all add: div_pos_pos_trivial mod_pos_pos_trivial)

lemma minute_split:
  fixes m r :: int
  assumes "0 \<le> r" and "r < 60000"
  shows "(m * 60000 + r) div 60000 = m"
  using assms by (simp add: div_pos_pos_trivial)

lemma trim_digits:
  assumes "list_all isDigit ds"
  shows "trim ds = ds"
proof (cases ds rule: rev_cases)
  case Nil
  then show ?thesis by (simp add: trim_def)
next
  case (snoc ys y)
  have y: "\<not> isSpace y" using assms snoc by (simp add: digit_not_space)
  have "ds \<noteq> []" using snoc by simp
  then obtain c cs where ds: "ds = c # cs" by (cases ds) auto
  have c: "\<not> isSpace c" using assms ds by (simp add: digit_not_space)
  have a: "dropWhile isSpace ds = ds" using c ds by simp
  have b: "dropWhile isSpace (rev ds) = rev ds" using y snoc by simp
  show ?thesis by (simp add: trim_def a b)
qed

lemma digits_numeric:
  assumes "list_all isDigit ds" and "ds \<noteq> []"
  shows "isNumericString ds"
proof -
  obtain c cs where ds: "ds = c # cs" using assms(2) by (cases ds) auto
  have c: "isDigit c" using assms(1) ds by simp
  have sg: "c \<noteq> CHR ''-''" "c \<noteq> CHR ''+''" using c by (auto simp: isDigit_def)
  have tw: "takeWhile isDigit ds = ds" "dropWhile isDigit ds = []"
    using assms(1) by (simp_all add: list_all_iff)
  have "unsignedDecimal ds"
    unfolding unsignedDecimal_def Let_def tw using assms(2) by (simp add: exponentPart_def)
  then show ?thesis
    unfolding isNumericString_def Let_def trim_digits [OF assms(1)] using sg ds by simp
qed

lemma digits_not_fixed:
  assumes "list_all isDigit ds" and "ds \<noteq> []"
  shows "fixInvalidDate z (JStr ds) = Inr ds"
proof -
  obtain c cs where ds: "ds = c # cs" using assms(2) by (cases ds) auto
  have c: "isDigit c" using assms(1) ds by simp
  have "c \<noteq> CHR ''+''" using c by (auto simp: isDigit_def)
  then show ?thesis by (simp add: fixInvalidDate_def startsWith_def ds)
qed

lemma serial_date_local:
  fixes k h m tza :: int
  assumes k: "- 100000 \<le> k" "k \<le> 100000"
    and rng: "0 \<le> h" "h \<le> 23" "0 \<le> m" "m \<le> 59"
    and tz: "0 \<le> tza" "tza < msPerDay"
  shows "\<exists>t. setHours (fixedZone tza) (Num (k * 86400000)) (Num h) (Num m) = Num t
           \<and> localDay (fixedZone tza) t = k
           \<and> getHours (fixedZone tza) (Num t) = Num h \<and> getMinutes (fixedZone tza) (Num t) = Num m"
proof -
  define s where "s = tza mod 60000"
  define r where "r = h * 3600000 + (m * 60000 + s)"
  have s: "0 \<le> s" "s < 60000" by (simp_all add: s_def)
  have r: "0 \<le> r" "r < 86400000" using rng s by (simp_all add: r_def)
  have ms: "0 \<le> m * 60000 + s" "m * 60000 + s < 3600000" using rng s by simp_all
  have tz': "0 \<le> tza" "tza < 86400000" using tz by (simp_all add: msPerDay_def)
  define t where "t = k * 86400000 + r - tza"
  have clip: "timeClip t = Num t"
    using k r tz' by (simp add: timeClip_def t_def)
  have "setHours (fixedZone tza) (Num (k * 86400000)) (Num h) (Num m) = timeClip t"
    using day_split(1) [OF tz', of k] minute_of_day [of k tza]
    by (simp add: setHours_def toLocal_fixed toUTC_fixed Let_def msPerDay_def t_def r_def s_def
          add.assoc)
  then have a: "setHours (fixedZone tza) (Num (k * 86400000)) (Num h) (Num m) = Num t"
    using clip by simp
  have l: "t + tza = k * 86400000 + r" by (simp add: t_def)
  have b: "localDay (fixedZone tza) t = k"
    using day_split(1) [OF r, of k] by (simp add: localDay_def toLocal_fixed msPerDay_def l)
  have c: "getHours (fixedZone tza) (Num t) = Num h"
    using day_split(2) [OF r, of k] hour_split(1) [OF ms, of h]
    by (simp add: getHours_def toLocal_fixed msPerDay_def l) (simp add: r_def)
  have "(k * 86400000 + r) mod 3600000 = m * 60000 + s"
    using hour_of_day [of k r] hour_split(2) [OF ms, of h] by (simp add: r_def)
  then have d: "getMinutes (fixedZone tza) (Num t) = Num m"
    using minute_split [OF s, of m] by (simp add: getMinutes_def toLocal_fixed l)
  show ?thesis using a b c d by blast
qed

lemma setDatePrevious_midnight:
  assumes "- 100000 \<le> k" "k \<le> 100000" "0 \<le> tza" "tza < msPerDay"
  shows "setDatePrevious (fixedZone tza) (Num (k * 86400000)) = Num ((k - 1) * 86400000)"
proof -
  have tz': "0 \<le> tza" "tza < 86400000" using assms by (simp_all add: msPerDay_def)
  show ?thesis
    using day_split [OF tz', of k] assms(1,2)
    by (simp add: setDatePrevious_def toLocal_fixed toUTC_fixed Let_def msPerDay_def timeClip_def
          algebra_simps)
qed

lemma excel_serial_east_of_utc:
  assumes ds: "list_all isDigit ds" "ds \<noteq> []" and n: "digitsVal ds < 100000"
    and tm: "parseTime (fixedZone tza) tv = Some \<lparr>hours = Num h, minutes = Num m\<rparr>"
    and rng: "0 \<le> h" "h \<le> 23" "0 \<le> m" "m \<le> 59"
    and tz: "0 \<le> tza" "tza < msPerDay"
  shows "\<exists>t. parseDateTime (fixedZone tza) (JStr ds) tv = Some (Num t)
           \<and> localDay (fixedZone tza) t = digitsVal ds - 25569 - (if 59 < digitsVal ds then 1 else 0)
           \<and> getHours (fixedZone tza) (Num t) = Num h \<and> getMinutes (fixedZone tza) (Num t) = Num m"
proof -
  let ?n = "digitsVal ds"
  have n0: "0 \<le> ?n" using ds(1) by (rule digitsVal_nonneg)
  have pi: "parseInt ds = Num ?n" using ds by (rule parseInt_digits)
  have tv: "\<not> falsy tv" using tm by (auto simp: parseTime_def)
  have nd: "\<not> falsy (JStr ds)" using ds(2) by (simp add: falsy_def)
  define k where "k = ?n - 25569 - (if 59 < ?n then 1 else 0)"
  have kb: "- 100000 \<le> k" "k \<le> 100000" using n0 n by (simp_all add: k_def)
  have kb0: "- 100000 \<le> ?n - 25569" "?n - 25569 \<le> 100000" using n0 n by simp_all
  have d0: "newDate (Num ((?n - 25569) * 86400 * 1000)) = Num ((?n - 25569) * 86400000)"
    using n0 n by (simp add: newDate_def timeClip_def)
  have d1: "(if js_gt (Num ?n) (Num 59)
             then setDatePrevious (fixedZone tza) (Num ((?n - 25569) * 86400000))
             else Num ((?n - 25569) * 86400000)) = Num (k * 86400000)"
    using setDatePrevious_midnight [OF kb0 tz] by (simp add: js_gt_def k_def)
  have "parseDateTime (fixedZone tza) (JStr ds) tv
          = Some (setHours (fixedZone tza) (Num (k * 86400000)) (Num h) (Num m))"
    unfolding parseDateTime_def Let_def digits_not_fixed [OF ds] sum.case pi jsnum.case d0 d1
    using tv nd n by (simp add: digits_numeric [OF ds] tm)
  then show ?thesis
    using serial_date_local [OF kb rng tz] by (simp add: k_def)
qed

text \<open>
  Claim C7. The claim asks for the calendar date of serial \<open>n\<close> to be day
  \<open>n - 25569\<close>, less one when \<open>n > 59\<close>. The code builds the date from a UTC
  instant and then reads and sets its local fields, so in a zone west of Greenwich the
  local day is one day earlier still: five hours west, serial 45000 with \<^verbatim>\<open>"09:00"\<close>
  gives local day \<open>45000 - 25569 - 2\<close> (13 March 2023) at 09:00.
\<close>

theorem excel_serial_west_of_utc:
  "parseDateTime (fixedZone (- 18000000)) (JStr ''45000'') (JStr ''09:00'') = Some (Num 1678716000000)
   \<and> localDay (fixedZone (- 18000000)) 1678716000000 = 45000 - 25569 - 2
   \<and> getHours (fixedZone (- 18000000)) (Num 1678716000000) = Num 9
   \<and> getMinutes (fixedZone (- 18000000)) (Num 1678716000000) = Num 0"
  by code_simp

section \<open>Properties of the Group Classifier\<close>

lemma deriveLearnerGroup_examples:
  "deriveLearnerGroup (JStr ''a1'') (JStr []) (JStr []) = Inr ''A1''"
  "deriveLearnerGroup (JStr []) (JStr ''Lecture B2 Review'') (JStr []) = Inr ''B2''"
  "deriveLearnerGroup (JStr []) (JStr []) (JStr []) = Inr ''Ungrouped''"
  "deriveLearnerGroup (JStr ''Z9'') (JStr []) (JStr []) = Inr ''Ungrouped''"
  by code_simp+



text \<open>
  On three strings the result is the explicit field, trimmed and in upper case, when
  it has the shape of a code; else the first code found in the section name; else the
  first one found in the session name; else the sentinel. It is always a code or the
  sentinel.
\<close>

lemma groupLetter_not_space: "isGroupLetter c \<Longrightarrow> \<not> isSpace c"
  by (auto simp: isGroupLetter_def isSpace_def lowerChar_def isUpper_def split: if_splits)

lemma groupDigit_not_space: "isGroupDigit c \<Longrightarrow> \<not> isSpace c"
  by (auto simp: isGroupDigit_def isSpace_def)

lemma upper_groupLetter:
  "isGroupLetter c \<Longrightarrow> (65::nat) \<le> of_char (upperChar c) \<and> of_char (upperChar c) \<le> (72::nat)"
  by (auto simp: isGroupLetter_def upperChar_def lowerChar_def isUpper_def isLower_def
           split: if_splits)

lemma upper_groupDigit: "isGroupDigit c \<Longrightarrow> upperChar c = c"
  by (auto simp: isGroupDigit_def upperChar_def isLower_def)

lemma expectedPattern_shape:
  assumes "expectedPattern g"
  shows "g \<noteq> []" and "trim g = g" and "isGroupCode (toUpperCase g)"
proof -
  from assms obtain a b where g: "g = [a, b]" and a: "isGroupLetter a" and b: "isGroupDigit b"
    by (cases g; cases "tl g") (auto simp: expectedPattern_def)
  show "g \<noteq> []" using g by simp
  show "trim g = g"
    using groupLetter_not_space [OF a] groupDigit_not_space [OF b] by (simp add: g trim_def)
  show "isGroupCode (toUpperCase g)"
    using upper_groupLetter [OF a] upper_groupDigit [OF b] b
    by (simp add: g isGroupCode_def toUpperCase_def)
qed

lemma groupAt_pattern: "groupAt s = Some g \<Longrightarrow> expectedPattern g"
  by (auto simp: groupAt_def expectedPattern_def Let_def split: if_splits)

lemma groupSearch_pattern: "groupSearch s = Some g \<Longrightarrow> expectedPattern g"
  by (induction s) (auto dest: groupAt_pattern split: option.splits)

lemma fromField_text:
  "fromField (JStr s) grp =
     Inr (if grp = [] then (case groupSearch s of None \<Rightarrow> [] | Some g \<Rightarrow> g) else grp)"
  by (cases s) (auto simp: fromField_def split: option.splits)

lemma deriveLearnerGroup_on_strings:
  "deriveLearnerGroup (JStr lg) (JStr sess) (JStr sect) =
     Inr (if expectedPattern (trim lg) then toUpperCase (trim lg)
          else (case groupSearch sect of
                  Some g \<Rightarrow> toUpperCase g
                | None \<Rightarrow> (case groupSearch sess of
                             Some g \<Rightarrow> toUpperCase g
                           | None \<Rightarrow> ''Ungrouped'')))"
proof (cases "expectedPattern (trim lg)")
  case True
  note sh = expectedPattern_shape [OF True]
  have "lg \<noteq> []" using sh(1) by (auto simp: trim_def)
  then show ?thesis
    using True sh by (simp add: deriveLearnerGroup_def fromField_text)
next
  case False
  have g0: "(if truthy (JStr lg)
            then (case toString (JStr lg) of
                    Inl e \<Rightarrow> Inl e
                  | Inr s \<Rightarrow> Inr (if expectedPattern (trim s) then trim s else []))
            else Inr []) = (Inr [] :: js_error + string)"
    using False by (cases "lg = []") simp_all
  show ?thesis
  proof (cases "groupSearch sect")
    case (Some g)
    note sh = expectedPattern_shape [OF groupSearch_pattern [OF Some]]
    show ?thesis
      unfolding deriveLearnerGroup_def g0 using False Some sh by (simp add: fromField_text)
  next
    case None
    show ?thesis
    proof (cases "groupSearch sess")
      case (Some g)
      note sh = expectedPattern_shape [OF groupSearch_pattern [OF Some]]
      show ?thesis
        unfolding deriveLearnerGroup_def g0 using False None Some sh
        by (simp add: fromField_text)
    next
      case None2: None
      show ?thesis
        unfolding deriveLearnerGroup_def g0 using False None None2
        by (simp add: fromField_text)
    qed
  qed
qed

lemma deriveLearnerGroup_code_or_sentinel:
  assumes "deriveLearnerGroup (JStr lg) (JStr sess) (JStr sect) = Inr g"
  shows "isGroupCode g \<or> g = ''Ungrouped''"
  using assms expectedPattern_shape(3) groupSearch_pattern
  unfolding deriveLearnerGroup_on_strings
  by (auto split: if_splits option.splits)

text \<open>
  Claim C6. The claim asks that \<open>deriveLearnerGroup\<close> never fails, whatever its three
  fields. The explicit field is converted with \<^verbatim>\<open>toString()\<close> before use, the other
  two are not: with a number in the section-name field, as a spreadsheet cell gives,
  the call of \<^verbatim>\<open>match\<close> throws a \<^verbatim>\<open>TypeError\<close>, and the row is lost. (On strings
  the function is total, see \<open>deriveLearnerGroup_strings_total\<close>, and the four examples
  of the claim hold, see \<open>deriveLearnerGroup_examples\<close>.)
\<close>

theorem deriveLearnerGroup_throws_on_number:
  "deriveLearnerGroup (JStr []) (JStr []) (JNum ''101'') = Inl TypeError
   \<and> processExcelFile (fixedZone 0) [''section date'', ''start time'', ''end time'', ''section'']
         [[JStr ''20240115'', JStr ''09:00'', JStr ''10:00'', JNum ''101'']] = []"
  by code_simp

section \<open>Properties of the Row Normalizer\<close>

lemma split8: "drop 8 s = [] \<Longrightarrow> s = take 4 s @ take 2 (drop 4 s) @ take 2 (drop 6 s)"
proof -
  assume d: "drop 8 s = []"
  have c: "take 2 (drop 6 s) = drop 6 s" using d by simp
  have b: "take 2 (drop 4 s) @ drop 6 s = drop 4 s"
    using append_take_drop_id [of 2 "drop 4 s"] by simp
  show ?thesis unfolding c b by simp
qed

lemma strictParse_YYYYMMDD_digits:
  assumes "strictParse [YYYY, MM, DD] s p = Some q"
  shows "list_all isDigit s"
proof -
  obtain y m d where p: "p = (y, m, d)" by (cases p)
  from assms p have a: "list_all isDigit (take 4 s)"
    and b: "list_all isDigit (take 2 (drop 4 s))"
    and c: "list_all isDigit (take 2 (drop 6 s))"
    and e: "drop 8 s = []"
    by (auto split: if_splits)
  have "list_all isDigit (take 4 s @ take 2 (drop 4 s) @ take 2 (drop 6 s))"
    using a b c by simp
  then show ?thesis using split8 [OF e] by simp
qed

lemma letters_not_YYYYMMDD: "hasLetter s \<Longrightarrow> \<not> validYYYYMMDD z s"
proof
  assume h: "hasLetter s" and v: "validYYYYMMDD z s"
  from v obtain q where "strictParse [YYYY, MM, DD] s (0, 0, 0) = Some q"
    by (auto simp: validYYYYMMDD_def momentStrict1_def fmtYYYYMMDD_def split: option.splits)
  then have "list_all isDigit s" by (rule strictParse_YYYYMMDD_digits)
  with h show False
    by (auto simp: hasLetter_def list_all_iff list_ex_iff dest: letter_not_digit)
qed

text \<open>Every row whose section date contains a letter is skipped, on both paths.\<close>

lemma rows_with_letters_skipped:
  "(hasLetter (getField row ''Section Date'') \<longrightarrow> processCSVRow z row = [])
   \<and> (excelSectionDate z (getExcelField headerRow xrow ''Section Date'') = Inr d
        \<and> hasLetter d \<longrightarrow> processExcelRow z headerRow xrow = [])"
  by (auto simp: processCSVRow_def processExcelRow_def Let_def letters_not_YYYYMMDD
           split: sum.splits)

text \<open>
  Claim C4. The claim asks that a row whose date is written with a month name, such as
  \<^verbatim>\<open>Jan 15, 2024\<close>, is accepted. \<open>parseDateTime\<close> does accept that date, but both row
  paths skip the row before calling it: the guard lets a date with a letter pass only
  if it is a valid \<^verbatim>\<open>YYYYMMDD\<close> date, which no string with a letter is.
\<close>

theorem named_month_row_skipped:
  "processCSVFile (fixedZone 0) [[(''Section Date'', ''Jan 15, 2024''), (''Start Time'', ''09:00''),
                      (''End Time'', ''10:00'')]] = []
   \<and> processExcelFile (fixedZone 0) [''section date'', ''start time'', ''end time'']
         [[JStr ''Jan 15, 2024'', JStr ''09:00'', JStr ''10:00'']] = []
   \<and> parseDateTime (fixedZone 0) (JStr ''Jan 15, 2024'') (JStr ''09:00'') = Some (Num 1705309200000)
   \<and> parseDateTime (fixedZone 0) (JStr ''Jan 15, 2024'') (JStr ''10:00'') = Some (Num 1705312800000)"
  by code_simp

text \<open>
  Claim C5. The claim asks that every emitted record has its end after its start. A row
  with a spreadsheet-serial date and the start time \<^verbatim>\<open>noon\<close> is emitted, by both
  paths, with an Invalid Date as its start: the hour \<open>NaN\<close> of \<open>parseTime\<close> goes into
  \<^verbatim>\<open>setHours\<close>, the serial branch of \<open>parseDateTime\<close> does not test its result,
  \<^verbatim>\<open>start >= end\<close> is false, and the final filter only asks for \<^verbatim>\<open>Date\<close> objects.
\<close>

theorem noon_row_emitted_with_invalid_start:
  "processCSVFile (fixedZone 0) [[(''Section Date'', ''45000''), (''Start Time'', ''noon''),
                      (''End Time'', ''13:00'')]]
     = [\<lparr>title = JStr ''Untitled Session'', start = NaN, end' = Num 1678798800000,
         desc = JStr [], location = JStr ''Unknown Location'',
         learnerGroup = JStr ''Ungrouped''\<rparr>]
   \<and> processExcelFile (fixedZone 0) [''section date'', ''start time'', ''end time'']
         [[JNum ''45000'', JStr ''noon'', JStr ''13:00'']]
     = [\<lparr>title = JStr ''Untitled Session'', start = NaN, end' = Num 1678798800000,
         desc = JStr [], location = JStr ''Unknown Location'',
         learnerGroup = JStr ''Ungrouped''\<rparr>]
   \<and> \<not> js_gt (Num 1678798800000) NaN"
  by code_simp





lemma adjustEnd_keeps:
  assumes "s < e"
  shows "adjustEnd z (Num s) (Num e) = Some (Num e)"
  using assms by (simp add: adjustEnd_def js_ge_def)

lemma adjustEnd_after_start:
  assumes "adjustEnd z (Num s) e = Some e1" and "e1 \<noteq> NaN"
  shows "js_gt e1 (Num s)"
  using assms by (cases e; cases e1) (auto simp: adjustEnd_def js_ge_def js_gt_def Let_def split: if_splits)

text \<open>
  Every emitted record whose start and end are valid dates has its end after its
  start, on both paths.
\<close>

lemma adjustEnd_invalid_start: "adjustEnd z NaN e = Some e"
  by (simp add: adjustEnd_def js_ge_def)

lemma adjustEnd_valid:
  assumes "adjustEnd z s e = Some e1" and "s \<noteq> NaN" and "e1 \<noteq> NaN"
  shows "js_gt e1 s"
proof -
  obtain x where s: "s = Num x" using assms(2) by (cases s) auto
  show ?thesis using adjustEnd_after_start [of z x e e1] assms(1,3) s by simp
qed

lemma emitted_adjusted:
  assumes "ev \<in> set (case ps of None \<Rightarrow> []
            | Some s \<Rightarrow> (case pe of None \<Rightarrow> []
               | Some e \<Rightarrow> (case adjustEnd z s e of None \<Rightarrow> []
                  | Some e1 \<Rightarrow> [mk s e1])))"
  shows "\<exists>s e e1. adjustEnd z s e = Some e1 \<and> ev = mk s e1"
proof -
  from assms obtain s where s: "ps = Some s" by (cases ps) auto
  from assms s obtain e where e: "pe = Some e" by (cases pe) auto
  from assms s e obtain e1 where e1: "adjustEnd z s e = Some e1"
    by (cases "adjustEnd z s e") auto
  from assms s e e1 have "ev = mk s e1" by simp
  with e1 show ?thesis by blast
qed

lemma processCSVRow_adjusted:
  assumes "ev \<in> set (processCSVRow z row)"
  shows "\<exists>e. adjustEnd z (start ev) e = Some (end' ev)"
proof -
  let ?lg = "deriveLearnerGroup (JStr (getField row ''Learner Group''))
       (JStr (getField row ''Session Name''))
       (JStr (if getField row ''Section Name'' \<noteq> []
              then getField row ''Section Name'' else getField row ''Section''))"
  from assms obtain g where g: "?lg = Inr g"
    by (cases ?lg) (auto simp: processCSVRow_def Let_def)
  from assms g have ne: "getField row ''Section Date'' \<noteq> []"
    by (auto simp: processCSVRow_def Let_def split: if_split_asm)
  from assms g ne
  have ok: "\<not> (hasLetter (getField row ''Section Date'')
               \<and> \<not> validYYYYMMDD z (getField row ''Section Date''))"
    unfolding processCSVRow_def Let_def by (auto split: if_split_asm)
  show ?thesis
    using assms unfolding processCSVRow_def Let_def g sum.case
    apply (simp only: ne ok if_False simp_thms)
    apply (drule emitted_adjusted)
    apply auto
    done
qed

lemma processExcelRow_adjusted:
  assumes "ev \<in> set (processExcelRow z headerRow xrow)"
  shows "\<exists>e. adjustEnd z (start ev) e = Some (end' ev)"
proof -
  let ?sd = "excelSectionDate z (getExcelField headerRow xrow ''Section Date'')"
  let ?lg = "deriveLearnerGroup (getExcelField headerRow xrow ''Learner Group'')
               (getExcelField headerRow xrow ''Session Name'')
               (js_or (getExcelField headerRow xrow ''Section Name'')
                      (getExcelField headerRow xrow ''Section''))"
  from assms obtain d where d: "?sd = Inr d"
    by (cases ?sd) (auto simp: processExcelRow_def Let_def)
  from assms d obtain g where g: "?lg = Inr g"
    by (cases ?lg) (auto simp: processExcelRow_def Let_def)
  from assms d g have ne: "d \<noteq> []"
    by (auto simp: processExcelRow_def Let_def split: if_split_asm)
  from assms d g ne have ok: "\<not> (hasLetter d \<and> \<not> validYYYYMMDD z d)"
    unfolding processExcelRow_def Let_def by (auto split: if_split_asm)
  show ?thesis
    using assms unfolding processExcelRow_def Let_def d g sum.case
    apply (simp only: ne ok if_False simp_thms)
    apply (drule emitted_adjusted)
    apply auto
    done
qed

lemma valid_records_end_after_start:
  assumes "ev \<in> set (processCSVFile z rows) \<or> ev \<in> set (processExcelFile z headerRow xrows)"
    and "start ev \<noteq> NaN" and "end' ev \<noteq> NaN"
  shows "js_gt (end' ev) (start ev)"
proof -
  from assms(1) have "\<exists>e. adjustEnd z (start ev) e = Some (end' ev)"
    by (auto simp: processCSVFile_def processExcelFile_def
             dest: processCSVRow_adjusted processExcelRow_adjusted)
  then show ?thesis using adjustEnd_valid assms(2,3) by blast
qed










lemma parseTime_0900_1000:
  "parseTime z (JStr ''09:00'') = Some \<lparr>hours = Num 9, minutes = Num 0\<rparr>"
  "parseTime z (JStr ''10:00'') = Some \<lparr>hours = Num 10, minutes = Num 0\<rparr>"
  by code_simp+

lemma date_20240115:
  "momentStrict dateFormats ''20240115'' = Some (2024, 1, 15)"
  "isNumericString ''20240115''"
  "parseInt ''20240115'' = Num 20240115"
  "fixInvalidDate z (JStr ''20240115'') = Inr ''20240115''"
  "daysFromCivil 2024 1 15 = 19737"
  "hasLetter ''20240115'' = False"
  by code_simp+

lemma parseDateTime_20240115:
  assumes "\<bar>c\<bar> \<le> msPerDay"
  shows "parseDateTime (fixedZone c) (JStr ''20240115'') (JStr ''09:00'')
           = Some (Num (1705309200000 - c))"
    and "parseDateTime (fixedZone c) (JStr ''20240115'') (JStr ''10:00'')
           = Some (Num (1705312800000 - c))"
  using assms
  by (auto simp add: parseDateTime_def falsy_def date_20240115 parseTime_0900_1000 momentOfDate_def
        timeClip_def momentSet_def setHoursOnly_def setMinutesOnly_def msPerDay_def Let_def
        toLocal_fixed toUTC_fixed)

lemma sample_fields:
  "getField [(''Section Date'', ''20240115''), (''Start Time'', ''09:00''), (''End Time'', ''10:00'')]
      ''Section Date'' = ''20240115''"
  "getField [(''Section Date'', ''20240115''), (''Start Time'', ''09:00''), (''End Time'', ''10:00'')]
      ''Start Time'' = ''09:00''"
  "getField [(''Section Date'', ''20240115''), (''Start Time'', ''09:00''), (''End Time'', ''10:00'')]
      ''End Time'' = ''10:00''"
  "getField [(''Section Date'', ''20240115''), (''Start Time'', ''09:00''), (''End Time'', ''10:00'')]
      ''Session Name'' = []"
  "getField [(''Section Date'', ''20240115''), (''Start Time'', ''09:00''), (''End Time'', ''10:00'')]
      ''Section Name'' = []"
  "getField [(''Section Date'', ''20240115''), (''Start Time'', ''09:00''), (''End Time'', ''10:00'')]
      ''Section'' = []"
  "getField [(''Section Date'', ''20240115''), (''Start Time'', ''09:00''), (''End Time'', ''10:00'')]
      ''Learner Group'' = []"
  "getField [(''Section Date'', ''20240115''), (''Start Time'', ''09:00''), (''End Time'', ''10:00'')]
      ''Course Name'' = []"
  "getField [(''Section Date'', ''20240115''), (''Start Time'', ''09:00''), (''End Time'', ''10:00'')]
      ''Session Type'' = []"
  "getField [(''Section Date'', ''20240115''), (''Start Time'', ''09:00''), (''End Time'', ''10:00'')]
      ''Location'' = []"
  by code_simp+

lemma ungrouped_eval:
  "deriveLearnerGroup (JStr []) (JStr []) (JStr []) = Inr ''Ungrouped''"
  "describe [JStr [], JStr [], JStr []] = []"
  by code_simp+

text \<open>
  The example of claim C9. The CSV with header \<^verbatim>\<open>Section Date,Start Time,End Time\<close>
  and the one row \<^verbatim>\<open>20240115,09:00,10:00\<close> gives exactly one record, with title
  \<^verbatim>\<open>Untitled Session\<close>, empty description, location \<^verbatim>\<open>Unknown Location\<close> and group
  \<^verbatim>\<open>Ungrouped\<close>, from 09:00 to 10:00 local time on 15 January 2024; in every zone of
  constant offset of at most a day.
\<close>

lemma csv_example_defaults:
  assumes "\<bar>c\<bar> \<le> msPerDay"
  shows "processCSVFile (fixedZone c)
           (csvObjects [''Section Date'', ''Start Time'', ''End Time'']
                       [[''20240115'', ''09:00'', ''10:00'']])
         = [\<lparr>title = JStr ''Untitled Session'',
             start = Num (1705309200000 - c),
             end' = Num (1705312800000 - c),
             desc = JStr [],
             location = JStr ''Unknown Location'',
             learnerGroup = JStr ''Ungrouped''\<rparr>]"
  by (simp add: processCSVFile_def csvObjects_def processCSVRow_def sample_fields ungrouped_eval
        date_20240115 parseDateTime_20240115 [OF assms] adjustEnd_def js_ge_def
        instanceofDate_def Let_def)

text \<open>
  The defaults of the compose step. Whenever \<open>getField\<close> gives the empty string for
  the optional fields of a CSV row, every record the row gives has the default title,
  an empty description, the default location and the group \<^verbatim>\<open>Ungrouped\<close>.
\<close>

lemma compose_defaults:
  assumes f: "getField row ''Session Name'' = []" "getField row ''Section Name'' = []"
      "getField row ''Section'' = []" "getField row ''Learner Group'' = []"
      "getField row ''Course Name'' = []" "getField row ''Session Type'' = []"
      "getField row ''Location'' = []"
    and ev: "ev \<in> set (processCSVRow z row)"
  shows "title ev = JStr ''Untitled Session'' \<and> desc ev = JStr []
         \<and> location ev = JStr ''Unknown Location'' \<and> learnerGroup ev = JStr ''Ungrouped''"
proof -
  from ev have ne: "getField row ''Section Date'' \<noteq> []"
    unfolding processCSVRow_def Let_def f
    by (auto simp: ungrouped_eval split: if_split_asm)
  from ev ne
  have ok: "\<not> (hasLetter (getField row ''Section Date'')
               \<and> \<not> validYYYYMMDD z (getField row ''Section Date''))"
    unfolding processCSVRow_def Let_def f
    by (auto simp: ungrouped_eval split: if_split_asm)
  show ?thesis
    using ev unfolding processCSVRow_def Let_def f
    apply (simp only: ungrouped_eval sum.case ne ok if_False simp_thms)
    apply (drule emitted_adjusted)
    apply auto
    done
qed

text \<open>
  \<open>getField\<close> gives the empty string for a name when no key of the row is that name,
  up to letter case, and no key of the row is \<^verbatim>\<open>undefined\<close>.
\<close>

lemma getField_absent:
  assumes "\<forall>k \<in> fst ` set row. toLowerCase k \<noteq> toLowerCase name"
    and "''undefined'' \<notin> fst ` set row"
  shows "getField row name = []"
proof -
  have "find (\<lambda>k. toLowerCase k = toLowerCase name) (map fst row) = None"
    using assms(1) by (simp add: find_None_iff)
  moreover have "map_of row ''undefined'' = None"
    using assms(2) by (simp add: map_of_eq_None_iff)
  ultimately show ?thesis by (simp add: getField_def)
qed

text \<open>
  Claim C9. The claim asks that the defaults of the compose step apply whenever the
  optional fields are absent. The example of the claim holds, see
  \<open>csv_example_defaults\<close>, and the defaults apply whenever \<open>getField\<close> gives the empty
  string, see \<open>compose_defaults\<close>. But for a name that no column has, \<open>getField\<close>
  reads the property named \<^verbatim>\<open>undefined\<close> of the row: when the CSV has a column with
  that name, its cell takes the place of every absent field. With the header
  \<^verbatim>\<open>Section Date,Start Time,End Time,undefined\<close> and the row
  \<^verbatim>\<open>20240115,09:00,10:00,B2\<close> none of the four defaults applies.
\<close>

theorem undefined_column_replaces_defaults:
  "processCSVFile (fixedZone 0)
     (csvObjects [''Section Date'', ''Start Time'', ''End Time'', ''undefined'']
                 [[''20240115'', ''09:00'', ''10:00'', ''B2'']])
   = [\<lparr>title = JStr ''B2'', start = Num 1705309200000, end' = Num 1705312800000,
       desc = JStr ''B2 - B2 - B2'', location = JStr ''B2'', learnerGroup = JStr ''B2''\<rparr>]"
  by code_simp

section \<open>Properties of the event store\<close>

lemma sameObject_Some: "sameObject a (Some b) = (ident a = ident b)"
  by (simp add: sameObject_def)

text \<open>
  Claim C10. \<open>handleDeleteEvent\<close> removes from the event list exactly the entries
  that are the same object as its argument: the list afterwards is the list before
  without those entries, in the same order; every other entry stays; an entry with the
  same contents as the argument but another identity stays; and when no entry is the
  argument the list is unchanged.
\<close>

theorem handleDeleteEvent_removes_same_object:
  "events (handleDeleteEvent st x) = filter (\<lambda>evt. ident evt \<noteq> ident x) (events st)
   \<and> (\<forall>evt \<in> set (events st). ident evt \<noteq> ident x
          \<longrightarrow> evt \<in> set (events (handleDeleteEvent st x)))
   \<and> (\<forall>evt \<in> set (events (handleDeleteEvent st x)). evt \<in> set (events st) \<and> ident evt \<noteq> ident x)
   \<and> (y \<in> set (events st) \<and> ident y \<noteq> ident x \<and> contents y = contents x
          \<longrightarrow> y \<in> set (events (handleDeleteEvent st x)))
   \<and> ((\<forall>evt \<in> set (events st). ident evt \<noteq> ident x)
          \<longrightarrow> events (handleDeleteEvent st x) = events st)"
proof -
  have eq: "events (handleDeleteEvent st x) = filter (\<lambda>evt. ident evt \<noteq> ident x) (events st)"
    by (simp add: handleDeleteEvent_def sameObject_Some)
  have unchanged: "(\<forall>evt \<in> set (events st). ident evt \<noteq> ident x)
      \<longrightarrow> filter (\<lambda>evt. ident evt \<noteq> ident x) (events st) = events st"
    by (simp add: filter_id_conv)
  show ?thesis
    unfolding eq using unchanged by auto
qed

text \<open>
  Witness for C10: deleting object 1 from three objects, of which object 2 has the
  contents of object 1, leaves objects 2 and 3; deleting object 1 from a list that holds
  only its twin leaves the list as it was.
\<close>

theorem handleDeleteEvent_witness:
  "events (handleDeleteEvent
      \<lparr>events = [\<lparr>ident = 1, contents = sampleEvent (Num 0) (Num 5)\<rparr>,
                 \<lparr>ident = 2, contents = sampleEvent (Num 0) (Num 5)\<rparr>,
                 \<lparr>ident = 3, contents = sampleEvent (Num 7) (Num 9)\<rparr>],
       selectedSlot = None, selectedEvent = None\<rparr>
      \<lparr>ident = 1, contents = sampleEvent (Num 0) (Num 5)\<rparr>)
   = [\<lparr>ident = 2, contents = sampleEvent (Num 0) (Num 5)\<rparr>,
      \<lparr>ident = 3, contents = sampleEvent (Num 7) (Num 9)\<rparr>]
   \<and> events (handleDeleteEvent
      \<lparr>events = [\<lparr>ident = 2, contents = sampleEvent (Num 0) (Num 5)\<rparr>],
       selectedSlot = None, selectedEvent = None\<rparr>
      \<lparr>ident = 1, contents = sampleEvent (Num 0) (Num 5)\<rparr>)
   = [\<lparr>ident = 2, contents = sampleEvent (Num 0) (Num 5)\<rparr>]"
  using handleDeleteEvent_removes_same_object
          [of "\<lparr>events = [\<lparr>ident = 1, contents = sampleEvent (Num 0) (Num 5)\<rparr>,
                 \<lparr>ident = 2, contents = sampleEvent (Num 0) (Num 5)\<rparr>,
                 \<lparr>ident = 3, contents = sampleEvent (Num 7) (Num 9)\<rparr>],
               selectedSlot = None, selectedEvent = None\<rparr>"
              "\<lparr>ident = 1, contents = sampleEvent (Num 0) (Num 5)\<rparr>"
              "\<lparr>ident = 2, contents = sampleEvent (Num 0) (Num 5)\<rparr>"]
        handleDeleteEvent_removes_same_object
          [of "\<lparr>events = [\<lparr>ident = 2, contents = sampleEvent (Num 0) (Num 5)\<rparr>],
               selectedSlot = None, selectedEvent = None\<rparr>"
              "\<lparr>ident = 1, contents = sampleEvent (Num 0) (Num 5)\<rparr>"
              "\<lparr>ident = 2, contents = sampleEvent (Num 0) (Num 5)\<rparr>"]
  by simp

text \<open>
  A candidate whose end is at or before its start (\<^verbatim>\<open>end <= start\<close>) is rejected by
  \<open>handleAddEvent\<close>, which shows the alert and returns the state unchanged; and the
  submit handler of the form, in add mode and in edit mode alike, returns the state
  unchanged for such a candidate, so that \<open>handleUpdateEvent\<close> is never reached with
  it.
\<close>

lemma ordered_candidate_rejected:
  "(js_le (end' (contents c)) (start (contents c))
      \<longrightarrow> handleAddEvent st c = (Some alertText, st))
   \<and> (js_le e s \<longrightarrow> snd (onSubmit z st formTitle s e answer fresh) = st)"
  by (simp add: handleAddEvent_def onSubmit_def Let_def)

text \<open>
  Claim C8. The claim asks that a candidate whose end is not strictly after its start
  is rejected by the add and by the update operation, and that the event list stays as
  it was. The test of the code is \<^verbatim>\<open>end <= start\<close>, and it is false when the end is an
  Invalid Date, although such an end is not after the start. So \<open>handleAddEvent\<close>
  appends every candidate whose end is an Invalid Date, with no alert; and the form,
  where the end field does not parse as a date and the user confirms the question about
  several days, stores the candidate as well: in add mode it is appended, in edit mode
  it replaces the selected event.
\<close>

theorem invalid_end_candidate_stored:
  "\<not> js_gt NaN (start c)
   \<and> handleAddEvent st \<lparr>ident = i, contents = c\<lparr>end' := NaN\<rparr>\<rparr>
       = (None, st\<lparr>events := events st @ [\<lparr>ident = i, contents = c\<lparr>end' := NaN\<rparr>\<rparr>],
                  selectedSlot := None\<rparr>)
   \<and> onSubmit (fixedZone 0)
        \<lparr>events = [],
         selectedSlot = Some \<lparr>slotStart = Num 1705309200000, slotEnd = Num 1705312800000\<rparr>,
         selectedEvent = None\<rparr>
        ''Seminar'' (Num 1705309200000) NaN True 1
       = (None,
          \<lparr>events = [\<lparr>ident = 1, contents = sampleEvent (Num 1705309200000) NaN\<rparr>],
           selectedSlot = None, selectedEvent = None\<rparr>)
   \<and> onSubmit (fixedZone 0)
        \<lparr>events = [\<lparr>ident = 1, contents = sampleEvent (Num 0) (Num 5)\<rparr>],
         selectedSlot = None,
         selectedEvent = Some \<lparr>ident = 1, contents = sampleEvent (Num 0) (Num 5)\<rparr>\<rparr>
        ''Seminar'' (Num 1705309200000) NaN True 2
       = (None,
          \<lparr>events = [\<lparr>ident = 2, contents = sampleEvent (Num 1705309200000) NaN\<rparr>],
           selectedSlot = None, selectedEvent = None\<rparr>)"
  apply (intro conjI)
     apply (simp add: js_gt_def)
    apply (simp add: handleAddEvent_def)
   apply code_simp
  apply code_simp
  done

end
